theory Spec2Isabelle
  imports Complex_Main "HOL-Library.Multiset" "HOL-Library.List_Lexorder" "HOL-Library.Char_ord"
begin

chapter \<open>The model\<close>

section \<open>Data model\<close>

text \<open>
  A Python \<open>str\<close> is a HOL string holding its UTF-8 encoding; state names and log lines
  are ASCII in all examples.  Counters are Python's unbounded \<open>int\<close>.  A \<open>float\<close>
  (durations, rates) is abstracted to an exact rational.  The clock readings
  (\<open>datetime.now()\<close>, \<open>time.perf_counter()\<close>) are inputs of the operations that take them.
\<close>

type_synonym datetime = nat

typedecl pyobject  \<comment> \<open>a metadata value (\<open>Any\<close>)\<close>

record TransitionEvent =
  from_state :: string
  to_state :: string
  success :: bool
  timestamp :: datetime
  duration_ms :: rat
  error_message :: "string option"
  metadata :: "(string \<times> pyobject) list"

subsection \<open>Insertion-ordered dictionaries\<close>

text \<open>
  A Python \<open>dict\<close> iterates in insertion order, and \<open>get_hotspots\<close> depends on it, so the
  failure matrix is an association list.  \<open>d[k] = v\<close> overwrites in place when the key is
  present and appends the key otherwise.
\<close>

fun dict_set :: "'k \<Rightarrow> 'v \<Rightarrow> ('k \<times> 'v) list \<Rightarrow> ('k \<times> 'v) list" where
  "dict_set k v [] = [(k, v)]"
| "dict_set k v ((k', v') # kvs) =
     (if k' = k then (k, v) # kvs else (k', v') # dict_set k v kvs)"

type_synonym row = "(string \<times> int) list"
type_synonym matrix = "(string \<times> row) list"

text \<open>
  \<open>defaultdict(lambda: defaultdict(int))\<close>: reading a missing key yields the default
  (an empty row, resp. \<open>0\<close>) and stores it under the key.
\<close>

definition dd_row :: "matrix \<Rightarrow> string \<Rightarrow> row" where
  "dd_row m f = (case map_of m f of None \<Rightarrow> [] | Some r \<Rightarrow> r)"

definition dd_count :: "row \<Rightarrow> string \<Rightarrow> int" where
  "dd_count r t = (case map_of r t of None \<Rightarrow> 0 | Some c \<Rightarrow> c)"

definition matrix_count :: "matrix \<Rightarrow> string \<Rightarrow> string \<Rightarrow> int" where
  "matrix_count m f t = dd_count (dd_row m f) t"

text \<open>\<open>matrix[f][t] += 1\<close>\<close>

definition matrix_incr :: "matrix \<Rightarrow> string \<Rightarrow> string \<Rightarrow> matrix" where
  "matrix_incr m f t =
     (let r = dd_row m f in dict_set f (dict_set t (dd_count r t + 1) r) m)"

text \<open>\<open>matrix[f][t]\<close> as an expression: the value read, and the matrix with the defaults stored.\<close>

definition matrix_read :: "matrix \<Rightarrow> string \<Rightarrow> string \<Rightarrow> int \<times> matrix" where
  "matrix_read m f t =
     (let r = dd_row m f; c = dd_count r t in (c, dict_set f (dict_set t c r) m))"

definition row_sum :: "row \<Rightarrow> int" where
  "row_sum r = sum_list (map snd r)"

definition matrix_sum :: "matrix \<Rightarrow> int" where
  "matrix_sum m = sum_list (map (\<lambda>(f, r). row_sum r) m)"

section \<open>Exceptions\<close>

text \<open>
  A raised exception: whether it is an instance of \<open>Exception\<close> (\<open>KeyboardInterrupt\<close>,
  \<open>SystemExit\<close>, \<open>GeneratorExit\<close> and \<open>asyncio.CancelledError\<close> derive from
  \<open>BaseException\<close> only), and what \<open>str(e)\<close> does: it returns a string (\<open>Inr\<close>), or the
  \<open>__str__\<close> of the exception raises in turn (\<open>Inl\<close>).
\<close>

datatype pyexc = PyExc (exc_is_Exception: bool) (exc_str: "pyexc + string")

text \<open>A call returns a value or raises.\<close>

datatype 'r outcome = Returned 'r | Raised pyexc

section \<open>TransitionTracker (tfm\_decorator.py)\<close>

record TransitionTracker =
  events :: "TransitionEvent list"
  current_state :: "string \<rightharpoonup> string"
  matrix :: matrix

definition tracker_init :: TransitionTracker where
  "tracker_init = \<lparr>events = [], current_state = Map.empty, matrix = []\<rparr>"

definition set_state :: "TransitionTracker \<Rightarrow> string \<Rightarrow> string \<Rightarrow> TransitionTracker" where
  "set_state tr st wid = tr\<lparr>current_state := (current_state tr)(wid \<mapsto> st)\<rparr>"

definition get_current_state :: "TransitionTracker \<Rightarrow> string \<Rightarrow> string option" where
  "get_current_state tr wid = current_state tr wid"

text \<open>
  The arguments of one \<open>record_transition\<close> call, with what the call meets in its
  environment: the reading of \<open>datetime.now()\<close>, and what the call of \<open>logger.info\<close> does.
  The logging call runs the handlers and filters that the application configured; it
  returns (\<open>None\<close>) or one of them raises (\<open>Some e\<close>), and nothing in \<open>record_transition\<close>
  catches that.
\<close>

record record_args =
  arg_from :: string
  arg_to :: string
  arg_success :: bool
  arg_duration_ms :: rat
  arg_error_message :: "string option"
  arg_workflow_id :: string
  arg_metadata :: "(string \<times> pyobject) list"
  arg_now :: datetime
  arg_log :: "pyexc option"

text \<open>
  \<open>record_transition\<close>, in the order of the source: the event is appended, the failure
  count is incremented, the line is logged, the current state is set.  The result is the
  outcome of the call and the tracker it leaves: an exception from the logging call leaves
  the event and the count in place and the current state not set.
\<close>

definition tracker_record_transition ::
    "TransitionTracker \<Rightarrow> record_args \<Rightarrow> unit outcome \<times> TransitionTracker" where
  "tracker_record_transition tr a =
     (let event = \<lparr>from_state = arg_from a, to_state = arg_to a, success = arg_success a,
                    timestamp = arg_now a, duration_ms = arg_duration_ms a,
                    error_message = arg_error_message a, metadata = arg_metadata a\<rparr>;
          tr1 = tr\<lparr>events := events tr @ [event]\<rparr>;
          tr2 = (if \<not> arg_success a
                 then tr1\<lparr>matrix := matrix_incr (matrix tr1) (arg_from a) (arg_to a)\<rparr>
                 else tr1)
      in case arg_log a of
           Some e \<Rightarrow> (Raised e, tr2)
         | None \<Rightarrow>
             (Returned (),
              if arg_success a
              then tr2\<lparr>current_state := (current_state tr2)(arg_workflow_id a \<mapsto> arg_to a)\<rparr>
              else tr2))"

text \<open>The tracker after a call of \<open>record_transition\<close>, whether it returned or raised.\<close>

definition tracker_call :: "TransitionTracker \<Rightarrow> record_args \<Rightarrow> TransitionTracker" where
  "tracker_call tr a = snd (tracker_record_transition tr a)"

text \<open>The line that \<open>record_transition\<close> hands to \<open>logger.info\<close>.\<close>

definition log_msg :: "record_args \<Rightarrow> string" where
  "log_msg a =
     (let status = (if arg_success a then ''SUCCESS'' else ''FAILURE'');
          msg = ''TRANSITION: '' @ arg_from a @ '' -> '' @ arg_to a @ '' '' @ status
      in case arg_error_message a of
           None \<Rightarrow> msg
         | Some e \<Rightarrow> if e \<noteq> [] then msg @ '' ERROR: '' @ e else msg)"

text \<open>\<open>get_matrix_summary\<close>: the entries \<open>total_events\<close> and \<open>total_failures\<close>.\<close>

definition summary_total_events :: "TransitionTracker \<Rightarrow> int" where
  "summary_total_events tr = int (length (events tr))"

definition summary_total_failures :: "TransitionTracker \<Rightarrow> int" where
  "summary_total_failures tr = int (length (filter (\<lambda>e. \<not> success e) (events tr)))"

section \<open>TransitionFailureMatrix (tfm\_analyze.py)\<close>

record TransitionFailureMatrix =
  states :: "string list"
  tfm_matrix :: matrix
  total_transitions :: int
  total_failures :: int
  discovered_states :: "string set"

text \<open>\<open>__init__\<close>: \<open>states or []\<close>, with \<open>None\<close> for an omitted argument.\<close>

definition tfm_init :: "string list option \<Rightarrow> TransitionFailureMatrix" where
  "tfm_init sts =
     \<lparr>states = (case sts of None \<Rightarrow> [] | Some l \<Rightarrow> l), tfm_matrix = [],
      total_transitions = 0, total_failures = 0, discovered_states = {}\<rparr>"

definition record_failure ::
    "TransitionFailureMatrix \<Rightarrow> string \<Rightarrow> string \<Rightarrow> TransitionFailureMatrix" where
  "record_failure m f t =
     m\<lparr>tfm_matrix := matrix_incr (tfm_matrix m) f t,
       total_failures := total_failures m + 1,
       discovered_states := insert t (insert f (discovered_states m))\<rparr>"

definition tfm_record_transition ::
    "TransitionFailureMatrix \<Rightarrow> string \<Rightarrow> string \<Rightarrow> bool \<Rightarrow> TransitionFailureMatrix" where
  "tfm_record_transition m f t ok =
     (let m1 = m\<lparr>total_transitions := total_transitions m + 1,
                  discovered_states := insert t (insert f (discovered_states m))\<rparr>
      in if \<not> ok then record_failure m1 f t else m1)"

text \<open>One call of the matrix's \<open>record_transition\<close>: from, to, success.\<close>

type_synonym tfm_call = "string \<times> string \<times> bool"

definition tfm_apply :: "TransitionFailureMatrix \<Rightarrow> tfm_call \<Rightarrow> TransitionFailureMatrix" where
  "tfm_apply m c = (case c of (f, t, ok) \<Rightarrow> tfm_record_transition m f t ok)"

section \<open>Hotspots\<close>

type_synonym hotspot = "string \<times> string \<times> int"

definition hs_count :: "hotspot \<Rightarrow> int" where
  "hs_count x = snd (snd x)"

text \<open>
  \<open>get_hotspots\<close> has the same body in both classes.  The nested loop visits the rows in
  dictionary order and each row's entries in dictionary order; \<open>sorted\<close> with the key
  \<open>-x[2]\<close> is a stable sort.
\<close>

definition get_hotspots :: "matrix \<Rightarrow> int \<Rightarrow> hotspot list" where
  "get_hotspots m min_count =
     (let hotspots =
            concat (map (\<lambda>(f, to_states).
                           map (\<lambda>(t, c). (f, t, c)) (filter (\<lambda>(t, c). c \<ge> min_count) to_states))
                        m)
      in sort_key (\<lambda>x. - hs_count x) hotspots)"

definition tracker_get_hotspots :: "TransitionTracker \<Rightarrow> int \<Rightarrow> hotspot list" where
  "tracker_get_hotspots tr min_count = get_hotspots (matrix tr) min_count"

definition tfm_get_hotspots :: "TransitionFailureMatrix \<Rightarrow> int \<Rightarrow> hotspot list" where
  "tfm_get_hotspots m min_count = get_hotspots (tfm_matrix m) min_count"

text \<open>The entries of a failure matrix, in the order in which the dictionaries iterate.\<close>

definition matrix_items :: "matrix \<Rightarrow> hotspot list" where
  "matrix_items m = concat (map (\<lambda>(f, r). map (\<lambda>(t, c). (f, t, c)) r) m)"

text \<open>
  The ordering as the specification words it: the pairs that failed, each with its number
  of failures, in the order in which each pair first failed, then filtered and sorted by
  count descending with a stable sort.
\<close>

definition first_occurrences :: "'a list \<Rightarrow> 'a list" where
  "first_occurrences xs = rev (remdups (rev xs))"

definition failed_pairs :: "tfm_call list \<Rightarrow> (string \<times> string) list" where
  "failed_pairs calls = map (\<lambda>(f, t, ok). (f, t)) (filter (\<lambda>(f, t, ok). \<not> ok) calls)"

definition hotspots_by_first_occurrence :: "tfm_call list \<Rightarrow> int \<Rightarrow> hotspot list" where
  "hotspots_by_first_occurrence calls min_count =
     (let fails = failed_pairs calls;
          entries = map (\<lambda>(f, t). (f, t, int (count_list fails (f, t)))) (first_occurrences fails)
      in sort_key (\<lambda>x. - hs_count x) (filter (\<lambda>x. hs_count x \<ge> min_count) entries))"

text \<open>
  The order in which a matrix built by \<open>record_transition\<close> calls iterates: the source
  states in the order in which each first failed, and for each of them its targets in the
  order in which each first failed from that source.
\<close>

definition items_by_row :: "(string \<times> string) list \<Rightarrow> hotspot list" where
  "items_by_row fails =
     concat (map (\<lambda>f. map (\<lambda>t. (f, t, int (count_list fails (f, t))))
                          (first_occurrences (map snd (filter (\<lambda>p. fst p = f) fails))))
                 (first_occurrences (map fst fails)))"

section \<open>Current state per workflow\<close>

text \<open>
  The operations that write the current-state mapping: \<open>record_transition\<close> (a call that
  raises in logging is followed by the next operation all the same: the caller caught the
  exception) and \<open>set_state(state, workflow_id)\<close>.
\<close>

datatype tracker_op = OpRecord record_args | OpSetState string string

fun apply_op :: "TransitionTracker \<Rightarrow> tracker_op \<Rightarrow> TransitionTracker" where
  "apply_op tr (OpRecord a) = tracker_call tr a"
| "apply_op tr (OpSetState st wid) = set_state tr st wid"

text \<open>
  The state an operation enters for a workflow, if any (a successful record enters its
  target when the call returns), and the state most recently entered by a sequence of
  operations (given in the order of the calls).
\<close>

fun entered :: "tracker_op \<Rightarrow> string \<Rightarrow> string option" where
  "entered (OpRecord a) wid =
     (if arg_success a \<and> arg_log a = None \<and> arg_workflow_id a = wid
      then Some (arg_to a) else None)"
| "entered (OpSetState st w) wid = (if w = wid then Some st else None)"

fun last_entered :: "tracker_op list \<Rightarrow> string \<Rightarrow> string option" where
  "last_entered [] wid = None"
| "last_entered (x # xs) wid =
     (case last_entered xs wid of Some s \<Rightarrow> Some s | None \<Rightarrow> entered x wid)"

section \<open>The \<open>track_state\<close> decorator (tfm\_decorator.py)\<close>

text \<open>
  The wrapped call \<open>func(*args, **kwargs)\<close> is a computation on the tracker (it may itself
  run tracked functions) that returns or raises.
\<close>

type_synonym 'r tracked = "TransitionTracker \<Rightarrow> 'r outcome \<times> TransitionTracker"

text \<open>\<open>_tracker.get_current_state(workflow_id) or "START"\<close>\<close>

definition wrapper_from_state :: "TransitionTracker \<Rightarrow> string \<Rightarrow> string" where
  "wrapper_from_state tr wid =
     (case get_current_state tr wid of
        None \<Rightarrow> ''START''
      | Some s \<Rightarrow> if s = [] then ''START'' else s)"

text \<open>
  What one call of the wrapper meets in its environment: the reading of
  \<open>time.perf_counter()\<close> before the wrapped call and the one after it, and the clock and the
  logging outcome of the \<open>record_transition\<close> call that follows.  The fields with a 2 are
  read only when that \<open>record_transition\<close> was the one on the success path and raised an
  \<open>Exception\<close>: the handler then reads the timer again and records a second time.
\<close>

record wrapper_env =
  env_start_time :: rat
  env_end_time :: rat
  env_now :: datetime
  env_log :: "pyexc option"
  env_end_time2 :: rat
  env_now2 :: datetime
  env_log2 :: "pyexc option"

text \<open>The keyword arguments of the wrapper's \<open>record_transition\<close> calls.\<close>

definition wrapper_args ::
    "string \<Rightarrow> string \<Rightarrow> string \<Rightarrow> bool \<Rightarrow> rat \<Rightarrow> rat \<Rightarrow> string option \<Rightarrow> datetime
       \<Rightarrow> pyexc option \<Rightarrow> record_args" where
  "wrapper_args frm state_name workflow_id ok start_time end_time err now lg =
     \<lparr>arg_from = frm, arg_to = state_name, arg_success = ok,
      arg_duration_ms = (end_time - start_time) * 1000, arg_error_message = err,
      arg_workflow_id = workflow_id, arg_metadata = [], arg_now = now, arg_log = lg\<rparr>"

text \<open>
  An exception \<open>e\<close> leaves the \<open>try\<close> block.  \<open>except Exception as e\<close> takes it only if it is
  an instance of \<open>Exception\<close>.  The handler evaluates \<open>str(e)\<close>, which may raise; it calls
  \<open>record_transition\<close>, which may raise; then \<open>raise\<close> re-raises \<open>e\<close>.
\<close>

definition wrapper_handler ::
    "string \<Rightarrow> string \<Rightarrow> string \<Rightarrow> pyexc \<Rightarrow> rat \<Rightarrow> rat \<Rightarrow> datetime \<Rightarrow> pyexc option
       \<Rightarrow> TransitionTracker \<Rightarrow> 'r outcome \<times> TransitionTracker" where
  "wrapper_handler state_name workflow_id frm e start_time end_time now lg tr =
     (if \<not> exc_is_Exception e then (Raised e, tr)
      else
        case exc_str e of
          Inl e2 \<Rightarrow> (Raised e2, tr)
        | Inr msg \<Rightarrow>
            (case tracker_record_transition tr
                    (wrapper_args frm state_name workflow_id False start_time end_time
                       (Some msg) now lg) of
               (Raised e3, tr') \<Rightarrow> (Raised e3, tr')
             | (Returned u, tr') \<Rightarrow> (Raised e, tr')))"

definition sync_wrapper :: "string \<Rightarrow> string \<Rightarrow> 'r tracked \<Rightarrow> wrapper_env \<Rightarrow> 'r tracked" where
  "sync_wrapper state_name workflow_id func env tr =
     (let frm = wrapper_from_state tr workflow_id
      in case func tr of
           (Returned result, tr1) \<Rightarrow>
             (case tracker_record_transition tr1
                     (wrapper_args frm state_name workflow_id True (env_start_time env)
                        (env_end_time env) None (env_now env) (env_log env)) of
                (Returned u, tr2) \<Rightarrow> (Returned result, tr2)
              | (Raised e, tr2) \<Rightarrow>
                  wrapper_handler state_name workflow_id frm e (env_start_time env)
                    (env_end_time2 env) (env_now2 env) (env_log2 env) tr2)
         | (Raised e, tr1) \<Rightarrow>
             wrapper_handler state_name workflow_id frm e (env_start_time env)
               (env_end_time env) (env_now env) (env_log env) tr1)"

text \<open>
  \<open>async_wrapper\<close> has the same body with \<open>await func(*args, **kwargs)\<close>; what runs while
  the coroutine is suspended is part of the effect of \<open>func\<close> on the tracker.
\<close>

definition async_wrapper :: "string \<Rightarrow> string \<Rightarrow> 'r tracked \<Rightarrow> wrapper_env \<Rightarrow> 'r tracked" where
  "async_wrapper state_name workflow_id func env tr =
     (let frm = wrapper_from_state tr workflow_id
      in case func tr of
           (Returned result, tr1) \<Rightarrow>
             (case tracker_record_transition tr1
                     (wrapper_args frm state_name workflow_id True (env_start_time env)
                        (env_end_time env) None (env_now env) (env_log env)) of
                (Returned u, tr2) \<Rightarrow> (Returned result, tr2)
              | (Raised e, tr2) \<Rightarrow>
                  wrapper_handler state_name workflow_id frm e (env_start_time env)
                    (env_end_time2 env) (env_now2 env) (env_log2 env) tr2)
         | (Raised e, tr1) \<Rightarrow>
             wrapper_handler state_name workflow_id frm e (env_start_time env)
               (env_end_time env) (env_now env) (env_log env) tr1)"

text \<open>The event of the wrapper's first \<open>record_transition\<close> call.\<close>

definition wrapper_event ::
    "string \<Rightarrow> string \<Rightarrow> bool \<Rightarrow> wrapper_env \<Rightarrow> string option \<Rightarrow> TransitionEvent" where
  "wrapper_event frm state_name ok env err =
     \<lparr>from_state = frm, to_state = state_name, success = ok, timestamp = env_now env,
      duration_ms = (env_end_time env - env_start_time env) * 1000, error_message = err,
      metadata = []\<rparr>"

text \<open>Sample values for the examples.\<close>

definition env0 :: wrapper_env where
  "env0 = \<lparr>env_start_time = 0, env_end_time = 1, env_now = 7, env_log = None,
           env_end_time2 = 2, env_now2 = 8, env_log2 = None\<rparr>"

definition args0 :: record_args where
  "args0 = \<lparr>arg_from = ''A'', arg_to = ''B'', arg_success = True, arg_duration_ms = 0,
            arg_error_message = None, arg_workflow_id = ''default'', arg_metadata = [],
            arg_now = 0, arg_log = None\<rparr>"

section \<open>LogParser (tfm\_analyze.py)\<close>

subsection \<open>Characters\<close>

text \<open>
  The regular expressions and \<open>str.strip\<close> work on the characters of a line.  A character
  is the UTF-8 encoding of its code point: one byte below 128 for ASCII, otherwise a lead
  byte with its continuation bytes.
\<close>

type_synonym pychar = string

definition is_cont :: "char \<Rightarrow> bool" where
  "is_cont c = (128 \<le> (of_char c :: nat) \<and> (of_char c :: nat) < 192)"

function chars_of :: "string \<Rightarrow> pychar list" where
  "chars_of [] = []"
| "chars_of (c # cs) = (c # takeWhile is_cont cs) # chars_of (dropWhile is_cont cs)"
  by pat_completeness auto
termination
  by (relation "measure length") (auto simp: less_Suc_eq_le length_dropWhile_le)

text \<open>
  What Python's Unicode database says of a character beyond ASCII is an argument of the
  model: whether \<open>\w\<close> matches it (\<open>str.isalnum\<close>), whether \<open>\s\<close> and \<open>str.strip\<close> take it
  for white space (\<open>str.isspace\<close>), whether it matches a given character of a pattern
  compiled with \<open>re.IGNORECASE\<close>, and its \<open>str.upper()\<close>.
\<close>

record unicode =
  uni_word :: "pychar \<Rightarrow> bool"
  uni_space :: "pychar \<Rightarrow> bool"
  uni_ci :: "char \<Rightarrow> pychar \<Rightarrow> bool"
  uni_upper :: "pychar \<Rightarrow> string"

text \<open>
  On ASCII, \<open>\w\<close> is a letter, a digit or the underscore; \<open>str.isspace\<close> holds for the codes
  9 to 13, 28 to 31 and 32; \<open>re.IGNORECASE\<close> compares up to the case of the letters.
\<close>

definition is_ascii :: "pychar \<Rightarrow> bool" where
  "is_ascii ch = (case ch of [c] \<Rightarrow> (of_char c :: nat) < 128 | _ \<Rightarrow> False)"

definition ascii_word :: "char \<Rightarrow> bool" where
  "ascii_word c =
     (let n = (of_char c :: nat)
      in (48 \<le> n \<and> n \<le> 57) \<or> (65 \<le> n \<and> n \<le> 90) \<or> n = 95 \<or> (97 \<le> n \<and> n \<le> 122))"

definition ascii_space :: "char \<Rightarrow> bool" where
  "ascii_space c =
     (let n = (of_char c :: nat) in (9 \<le> n \<and> n \<le> 13) \<or> (28 \<le> n \<and> n \<le> 32))"

definition to_upper :: "char \<Rightarrow> char" where
  "to_upper c =
     (let n = (of_char c :: nat) in if 97 \<le> n \<and> n \<le> 122 then char_of (n - 32) else c)"

definition is_word :: "unicode \<Rightarrow> pychar \<Rightarrow> bool" where
  "is_word U ch =
     (case ch of
        [c] \<Rightarrow> if (of_char c :: nat) < 128 then ascii_word c else uni_word U ch
      | _ \<Rightarrow> uni_word U ch)"

definition is_space :: "unicode \<Rightarrow> pychar \<Rightarrow> bool" where
  "is_space U ch =
     (case ch of
        [c] \<Rightarrow> if (of_char c :: nat) < 128 then ascii_space c else uni_space U ch
      | _ \<Rightarrow> uni_space U ch)"

text \<open>A character of the text against a character \<open>p\<close> of a pattern that ignores case.\<close>

definition ci_match :: "unicode \<Rightarrow> char \<Rightarrow> pychar \<Rightarrow> bool" where
  "ci_match U p ch =
     (case ch of
        [c] \<Rightarrow> if (of_char c :: nat) < 128 then to_upper p = to_upper c else uni_ci U p ch
      | _ \<Rightarrow> uni_ci U p ch)"

text \<open>\<open>s.upper()\<close>, on the characters of \<open>s\<close>\<close>

definition upper :: "unicode \<Rightarrow> pychar list \<Rightarrow> string" where
  "upper U s =
     concat (map (\<lambda>ch. case ch of
                          [c] \<Rightarrow> if (of_char c :: nat) < 128 then [to_upper c] else uni_upper U ch
                        | _ \<Rightarrow> uni_upper U ch) s)"

text \<open>The characters of \<open>line.strip()\<close>\<close>

definition strip :: "unicode \<Rightarrow> string \<Rightarrow> pychar list" where
  "strip U s = rev (dropWhile (is_space U) (rev (dropWhile (is_space U) (chars_of s))))"

text \<open>The \<open>str\<close> made of some characters.\<close>

definition str_of :: "pychar list \<Rightarrow> string" where
  "str_of chs = concat chs"

subsection \<open>The three patterns\<close>

text \<open>A literal of a pattern compiled with \<open>re.IGNORECASE\<close>, matched at the start of the text.\<close>

fun ci_prefix :: "unicode \<Rightarrow> string \<Rightarrow> pychar list \<Rightarrow> bool" where
  "ci_prefix U [] s = True"
| "ci_prefix U (p # ps) [] = False"
| "ci_prefix U (p # ps) (ch # chs) = (ci_match U p ch \<and> ci_prefix U ps chs)"

text \<open>A literal without letters, or of a pattern that does not ignore case.\<close>

definition lit :: "string \<Rightarrow> pychar list" where
  "lit p = map (\<lambda>c. [c]) p"

text \<open>
  \<open>TRANSITION_PATTERN = TRANSITION:\s*(\w+)\s*->\s*(\w+)\s*(SUCCESS|FAILURE)\<close>, ignoring case.

  \<open>match_result\<close> is the tail \<open>\s*(SUCCESS|FAILURE)\<close> at the start of a text; it yields the
  characters of group 3.  \<open>match_to n\<close> is \<open>(\w+)\<close> followed by that tail, for a run of \<open>n\<close>
  word characters: the group is greedy, so the whole run is tried first, and the matcher
  backs off one character at a time (\<open>TRANSITION: A -> B_SUCCESS\<close> has the target \<open>B_\<close>).
  The other repetitions never need to back off, since what follows them cannot start with
  a character they consume.
\<close>

definition match_result :: "unicode \<Rightarrow> pychar list \<Rightarrow> pychar list option" where
  "match_result U s =
     (let r = dropWhile (is_space U) s
      in if ci_prefix U ''SUCCESS'' r \<or> ci_prefix U ''FAILURE'' r then Some (take 7 r)
         else None)"

fun match_to :: "unicode \<Rightarrow> nat \<Rightarrow> pychar list \<Rightarrow> (pychar list \<times> pychar list) option" where
  "match_to U 0 s = None"
| "match_to U (Suc n) s =
     (case match_result U (drop (Suc n) s) of
        Some r \<Rightarrow> Some (take (Suc n) s, r)
      | None \<Rightarrow> match_to U n s)"

text \<open>The groups: the two states as \<open>str\<close>, and the characters of the result.\<close>

definition match_transition_here ::
    "unicode \<Rightarrow> pychar list \<Rightarrow> (string \<times> string \<times> pychar list) option" where
  "match_transition_here U s =
     (if \<not> ci_prefix U ''TRANSITION:'' s then None
      else
        let s1 = dropWhile (is_space U) (drop 11 s);
            frm = takeWhile (is_word U) s1;
            s2 = dropWhile (is_space U) (dropWhile (is_word U) s1)
        in if frm = [] \<or> take 2 s2 \<noteq> lit ''->'' then None
           else
             let s3 = dropWhile (is_space U) (drop 2 s2)
             in case match_to U (length (takeWhile (is_word U) s3)) s3 of
                  None \<Rightarrow> None
                | Some (to, r) \<Rightarrow> Some (str_of frm, str_of to, r))"

text \<open>\<open>pattern.search(line)\<close>: the match at the leftmost position that has one.\<close>

fun search_transition ::
    "unicode \<Rightarrow> pychar list \<Rightarrow> (string \<times> string \<times> pychar list) option" where
  "search_transition U [] = None"
| "search_transition U (c # cs) =
     (case match_transition_here U (c # cs) of
        Some g \<Rightarrow> Some g
      | None \<Rightarrow> search_transition U cs)"

text \<open>\<open>STATE_CHANGE_PATTERN = STATE:\s*(\w+)\<close>, case-sensitive; the result is group 1.\<close>

definition match_state_here :: "unicode \<Rightarrow> pychar list \<Rightarrow> string option" where
  "match_state_here U s =
     (if take 6 s \<noteq> lit ''STATE:'' then None
      else
        let w = takeWhile (is_word U) (dropWhile (is_space U) (drop 6 s))
        in if w = [] then None else Some (str_of w))"

fun search_state :: "unicode \<Rightarrow> pychar list \<Rightarrow> string option" where
  "search_state U [] = None"
| "search_state U (c # cs) =
     (case match_state_here U (c # cs) of
        Some w \<Rightarrow> Some w
      | None \<Rightarrow> search_state U cs)"

text \<open>\<open>ERROR_PATTERN = (ERROR|EXCEPTION|FAILED|FAILURE)\<close>, ignoring case; only used as a test.\<close>

definition match_error_here :: "unicode \<Rightarrow> pychar list \<Rightarrow> bool" where
  "match_error_here U s =
     (ci_prefix U ''ERROR'' s \<or> ci_prefix U ''EXCEPTION'' s \<or> ci_prefix U ''FAILED'' s
      \<or> ci_prefix U ''FAILURE'' s)"

fun search_error :: "unicode \<Rightarrow> pychar list \<Rightarrow> bool" where
  "search_error U [] = False"
| "search_error U (c # cs) = (match_error_here U (c # cs) \<or> search_error U cs)"

subsection \<open>The loop\<close>

text \<open>
  The body of the loop of \<open>parse_lines\<close>, on the matrix and the parser's \<open>current_state\<close>
  (\<open>None\<close> until a state is seen).
\<close>

definition parse_line ::
    "unicode \<Rightarrow> TransitionFailureMatrix \<times> string option \<Rightarrow> string
       \<Rightarrow> TransitionFailureMatrix \<times> string option" where
  "parse_line U st raw =
     (case st of (m, cur) \<Rightarrow>
        let line = strip U raw
        in if line = [] then (m, cur)
           else
             case search_transition U line of
               Some (f, t, result) \<Rightarrow>
                 let ok = (upper U result = ''SUCCESS'')
                 in (tfm_record_transition m f t ok, Some (if ok then t else f))
             | None \<Rightarrow>
                 (case search_state U line of
                    Some new_state \<Rightarrow>
                      ((case cur of
                          Some c \<Rightarrow>
                            if c \<noteq> [] \<and> c \<noteq> new_state
                            then tfm_record_transition m c new_state (\<not> search_error U line)
                            else m
                        | None \<Rightarrow> m),
                       Some new_state)
                  | None \<Rightarrow> (m, cur)))"

fun parse_loop ::
    "unicode \<Rightarrow> TransitionFailureMatrix \<times> string option \<Rightarrow> string list
       \<Rightarrow> TransitionFailureMatrix \<times> string option" where
  "parse_loop U st [] = st"
| "parse_loop U st (l # ls) = parse_loop U (parse_line U st l) ls"

text \<open>\<open>LogParser(states).parse_lines(lines)\<close>\<close>

definition parse_lines ::
    "unicode \<Rightarrow> string list option \<Rightarrow> string list \<Rightarrow> TransitionFailureMatrix" where
  "parse_lines U sts lines = fst (parse_loop U (tfm_init sts, None) lines)"

subsection \<open>The state last seen\<close>

text \<open>
  The state a line leaves the parser in, if the line sets it: the target of an explicit
  transition that succeeded, the source of one that failed, the name on a \<open>STATE:\<close> line.
  The state last seen in a sequence of lines is the one set by the last line that sets it.
\<close>

definition line_state :: "unicode \<Rightarrow> string \<Rightarrow> string option" where
  "line_state U raw =
     (let line = strip U raw
      in if line = [] then None
         else
           case search_transition U line of
             Some (f, t, result) \<Rightarrow> Some (if upper U result = ''SUCCESS'' then t else f)
           | None \<Rightarrow> search_state U line)"

fun last_seen :: "unicode \<Rightarrow> string list \<Rightarrow> string option" where
  "last_seen U [] = None"
| "last_seen U (l # ls) =
     (case last_seen U ls of Some s \<Rightarrow> Some s | None \<Rightarrow> line_state U l)"

text \<open>
  A table for the examples, whose lines are ASCII: no character beyond ASCII is a word
  character, white space or a case variant of a letter.
\<close>

definition ascii_table :: unicode where
  "ascii_table = \<lparr>uni_word = (\<lambda>ch. False), uni_space = (\<lambda>ch. False),
                   uni_ci = (\<lambda>p ch. False), uni_upper = (\<lambda>ch. ch)\<rparr>"

section \<open>Renderers\<close>

subsection \<open>Text formatting\<close>

text \<open>
  \<open>len\<close> counts code points, that is, in a UTF-8 encoding, the bytes that are not
  continuation bytes.
\<close>

definition py_len :: "string \<Rightarrow> nat" where
  "py_len s = length (filter (\<lambda>c. \<not> (128 \<le> (of_char c :: nat) \<and> (of_char c :: nat) < 192)) s)"

definition NL :: string where
  "NL = [CHR 0x0A]"

text \<open>\<open>sep.join(parts)\<close>\<close>

fun join :: "string \<Rightarrow> string list \<Rightarrow> string" where
  "join sep [] = []"
| "join sep [x] = x"
| "join sep (x # y # ys) = x @ sep @ join sep (y # ys)"

text \<open>\<open>str(n)\<close> for an \<open>int\<close>\<close>

fun digits :: "nat \<Rightarrow> string" where
  "digits n =
     (if n < 10 then [char_of (48 + n)] else digits (n div 10) @ [char_of (48 + n mod 10)])"

definition str_int :: "int \<Rightarrow> string" where
  "str_int i = (if i < 0 then ''-'' @ digits (nat (- i)) else digits (nat i))"

text \<open>
  The format specifications \<open>^w\<close> and \<open>>w\<close>: no padding when the text is at least \<open>w\<close>
  long; centring puts the smaller half of the padding on the left.
\<close>

definition center :: "nat \<Rightarrow> string \<Rightarrow> string" where
  "center w s =
     (let pad = w - py_len s; l = pad div 2
      in replicate l (CHR '' '') @ s @ replicate (pad - l) (CHR '' ''))"

definition rjust :: "nat \<Rightarrow> string \<Rightarrow> string" where
  "rjust w s = replicate (w - py_len s) (CHR '' '') @ s"

datatype py_error = ZeroDivisionError | ValueError

text \<open>A number is an \<open>int\<close> or a \<open>float\<close>.\<close>

datatype pynum = PyInt int | PyFloat rat

text \<open>\<open>a / b\<close> on two \<open>int\<close>s, a \<open>float\<close>\<close>

definition truediv :: "int \<Rightarrow> int \<Rightarrow> py_error + rat" where
  "truediv a b = (if b = 0 then Inl ZeroDivisionError else Inr (of_int a / of_int b))"

text \<open>\<open>max(...)\<close> of a sequence\<close>

definition py_max :: "nat list \<Rightarrow> py_error + nat" where
  "py_max xs = (case xs of [] \<Rightarrow> Inl ValueError | x # ys \<Rightarrow> Inr (fold max ys x))"

subsection \<open>TransitionFailureMatrix\<close>

definition get_all_states :: "TransitionFailureMatrix \<Rightarrow> string list" where
  "get_all_states m =
     (if states m \<noteq> [] then states m else sorted_list_of_set (discovered_states m))"

text \<open>The expression for \<open>failure_rate\<close> in \<open>render_markdown\<close>, and the one in \<open>render_json\<close>.\<close>

definition failure_rate_percent :: "TransitionFailureMatrix \<Rightarrow> py_error + pynum" where
  "failure_rate_percent m =
     (if total_transitions m > 0
      then (case truediv (total_failures m) (total_transitions m) of
              Inl e \<Rightarrow> Inl e
            | Inr q \<Rightarrow> Inr (PyFloat (q * 100)))
      else Inr (PyInt 0))"

definition failure_rate_fraction :: "TransitionFailureMatrix \<Rightarrow> py_error + pynum" where
  "failure_rate_fraction m =
     (if total_transitions m > 0
      then (case truediv (total_failures m) (total_transitions m) of
              Inl e \<Rightarrow> Inl e
            | Inr q \<Rightarrow> Inr (PyFloat q))
      else Inr (PyInt 0))"

definition md_header :: "string list \<Rightarrow> string" where
  "md_header sts = ''| From '' @ [CHR 0x5C] @ '' To |'' @ concat (map (\<lambda>s. '' '' @ s @ '' |'') sts)"

definition md_separator :: "string list \<Rightarrow> string" where
  "md_separator sts = ''|-----------|'' @ concat (map (\<lambda>s. ''--------|'') sts)"

text \<open>
  The two loops over the rows and the cells.  Each cell reads \<open>self.matrix[from][to]\<close>,
  which stores the defaults in the matrix, so the loops thread the matrix.
\<close>

fun md_cells :: "matrix \<Rightarrow> string \<Rightarrow> string list \<Rightarrow> string \<Rightarrow> string \<times> matrix" where
  "md_cells mx f [] row = (row, mx)"
| "md_cells mx f (t # ts) row =
     (case matrix_read mx f t of
        (c, mx') \<Rightarrow>
          md_cells mx' f ts
            (row @ (if c > 0 then '' **'' @ str_int c @ ''** |'' else '' - |'')))"

fun md_rows :: "matrix \<Rightarrow> string list \<Rightarrow> string list \<Rightarrow> string list \<Rightarrow> string list \<times> matrix" where
  "md_rows mx sts [] lines = (lines, mx)"
| "md_rows mx sts (f # fs) lines =
     (case md_cells mx f sts (''| **'' @ f @ ''** |'') of
        (row, mx') \<Rightarrow> md_rows mx' sts fs (lines @ [row]))"

definition md_hotspot_line :: "hotspot \<Rightarrow> string" where
  "md_hotspot_line x =
     (case x of (f, t, c) \<Rightarrow> ''- '' @ f @ '' -> '' @ t @ '': **'' @ str_int c @ '' failures**'')"

text \<open>
  \<open>fmt\<close> stands for \<open>format(x, ".1f")\<close> on the failure rate.  The result is the text and
  the matrix object after the call.
\<close>

definition tfm_render_markdown ::
    "(pynum \<Rightarrow> string) \<Rightarrow> TransitionFailureMatrix
       \<Rightarrow> py_error + (string \<times> TransitionFailureMatrix)" where
  "tfm_render_markdown fmt m =
     (let sts = get_all_states m
      in if sts = []
         then Inr (''# Transition Failure Matrix'' @ NL @ NL @ ''No transitions found.'', m)
         else
           case failure_rate_percent m of
             Inl e \<Rightarrow> Inl e
           | Inr failure_rate \<Rightarrow>
               let lines0 = [''# Transition Failure Matrix'' @ NL,
                             ''**Total Transitions:** '' @ str_int (total_transitions m),
                             ''**Total Failures:** '' @ str_int (total_failures m),
                             ''**Failure Rate:** '' @ fmt failure_rate @ ''%'' @ NL,
                             md_header sts, md_separator sts]
               in case md_rows (tfm_matrix m) sts sts lines0 of
                    (lines1, mx) \<Rightarrow>
                      let m' = m\<lparr>tfm_matrix := mx\<rparr>;
                          hotspots = tfm_get_hotspots m' 2;
                          lines2 =
                            (if hotspots \<noteq> []
                             then lines1 @ [NL @ ''## Hotspots (failures >= 2)'' @ NL]
                                    @ map md_hotspot_line (take 10 hotspots)
                             else lines1)
                      in Inr (join NL lines2, m'))"

definition middle_dot :: string where
  "middle_dot = [CHR 0xC2, CHR 0xB7]"

fun ascii_cells :: "nat \<Rightarrow> matrix \<Rightarrow> string \<Rightarrow> string list \<Rightarrow> string \<Rightarrow> string \<times> matrix" where
  "ascii_cells w mx f [] row = (row, mx)"
| "ascii_cells w mx f (t # ts) row =
     (case matrix_read mx f t of
        (c, mx') \<Rightarrow>
          ascii_cells w mx' f ts
            (row @ (if c > 0 then center w (str_int c) @ '' '' else center w middle_dot @ '' '')))"

fun ascii_rows ::
    "nat \<Rightarrow> matrix \<Rightarrow> string list \<Rightarrow> string list \<Rightarrow> string list \<Rightarrow> string list \<times> matrix" where
  "ascii_rows w mx sts [] lines = (lines, mx)"
| "ascii_rows w mx sts (f # fs) lines =
     (case ascii_cells w mx f sts (rjust w f @ '' |'') of
        (row, mx') \<Rightarrow> ascii_rows w mx' sts fs (lines @ [row]))"

definition ascii_hotspot_line :: "hotspot \<Rightarrow> string" where
  "ascii_hotspot_line x =
     (case x of (f, t, c) \<Rightarrow> ''  '' @ f @ '' -> '' @ t @ '': '' @ str_int c)"

definition ascii_header :: "nat \<Rightarrow> string list \<Rightarrow> string" where
  "ascii_header w sts =
     replicate (w + 3) (CHR '' '') @ concat (map (\<lambda>s. center w s @ '' '') sts)"

definition tfm_render_ascii ::
    "TransitionFailureMatrix \<Rightarrow> py_error + (string \<times> TransitionFailureMatrix)" where
  "tfm_render_ascii m =
     (let sts = get_all_states m
      in if sts = [] then Inr (''No transitions found.'', m)
         else
           case py_max (map py_len sts) of
             Inl e \<Rightarrow> Inl e
           | Inr max_state_len \<Rightarrow>
               let col_width = max max_state_len 4;
                   header = ascii_header col_width sts;
                   lines0 = [''Total Transitions: '' @ str_int (total_transitions m),
                             ''Total Failures: '' @ str_int (total_failures m),
                             '''',
                             header, replicate (py_len header) (CHR ''-'')]
               in case ascii_rows col_width (tfm_matrix m) sts sts lines0 of
                    (lines1, mx) \<Rightarrow>
                      let m' = m\<lparr>tfm_matrix := mx\<rparr>;
                          hotspots = tfm_get_hotspots m' 2;
                          lines2 =
                            (if hotspots \<noteq> []
                             then lines1 @ ['''', ''Hotspots:'']
                                    @ map ascii_hotspot_line (take 5 hotspots)
                             else lines1)
                      in Inr (join NL lines2, m'))"

text \<open>
  \<open>render_json\<close> is \<open>json.dumps(obj, indent=2)\<close>; the model gives the object that is
  serialised.
\<close>

datatype json = JNum pynum | JStr string | JArr "json list" | JObj "(string \<times> json) list"

definition tfm_render_json :: "TransitionFailureMatrix \<Rightarrow> int \<Rightarrow> py_error + json" where
  "tfm_render_json m min_failures =
     (case failure_rate_fraction m of
        Inl e \<Rightarrow> Inl e
      | Inr failure_rate \<Rightarrow>
          Inr (JObj
            [(''states'', JArr (map JStr (get_all_states m))),
             (''matrix'',
                JObj (map (\<lambda>(k, v). (k, JObj (map (\<lambda>(t, c). (t, JNum (PyInt c))) v))) (tfm_matrix m))),
             (''hotspots'',
                JArr (map (\<lambda>(f, t, c). JObj [(''from'', JStr f), (''to'', JStr t), (''count'', JNum (PyInt c))])
                        (tfm_get_hotspots m min_failures))),
             (''total_transitions'', JNum (PyInt (total_transitions m))),
             (''total_failures'', JNum (PyInt (total_failures m))),
             (''failure_rate'', JNum failure_rate)]))"

subsection \<open>TransitionTracker\<close>

text \<open>\<open>get_matrix_summary()["states"]\<close>: the states of the matrix and of the events, sorted.\<close>

definition summary_states :: "TransitionTracker \<Rightarrow> string list" where
  "summary_states tr =
     sorted_list_of_set
       (set (concat (map (\<lambda>(f, r). f # map fst r) (matrix tr)))
        \<union> set (concat (map (\<lambda>e. [from_state e, to_state e]) (events tr))))"

definition tracker_render_markdown :: "TransitionTracker \<Rightarrow> string \<times> TransitionTracker" where
  "tracker_render_markdown tr =
     (let sts = summary_states tr
      in if sts = []
         then (''# Transition Failure Matrix'' @ NL @ NL @ ''No transitions recorded.'', tr)
         else
           let lines0 = [''# Transition Failure Matrix'' @ NL,
                         ''**Total Events:** '' @ str_int (summary_total_events tr),
                         ''**Total Failures:** '' @ str_int (summary_total_failures tr) @ NL,
                         md_header sts, md_separator sts]
           in case md_rows (matrix tr) sts sts lines0 of
                (lines1, mx) \<Rightarrow>
                  let tr' = tr\<lparr>matrix := mx\<rparr>;
                      hotspots = tracker_get_hotspots tr' 2;
                      lines2 =
                        (if hotspots \<noteq> []
                         then lines1 @ [NL @ ''## Hotspots'' @ NL]
                                @ map md_hotspot_line (take 10 hotspots)
                         else lines1)
                  in (join NL lines2, tr'))"

subsection \<open>Flow diagram (tfm\_visualizations.py)\<close>

text \<open>
  \<open>render_sankey\<close> starts from \<open>tracker.get_transition_rates()\<close>, a method that is not part
  of \<open>tfm_decorator.py\<close>; its result, a dictionary from a label \<open>from \<rightarrow> to\<close> to the
  statistics of the pair, is an argument of the model.
\<close>

record rate_stats =
  rs_total :: int
  rs_successes :: int
  rs_failures :: int
  rs_failure_rate :: rat
  rs_avg_duration_ms :: rat

type_synonym rates = "(string \<times> rate_stats) list"

text \<open>The separator \<open>" \<rightarrow> "\<close>: a space, U+2192 in UTF-8, a space.\<close>

definition arrow_sep :: string where
  "arrow_sep = [CHR '' '', CHR 0xE2, CHR 0x86, CHR 0x92, CHR '' '']"

text \<open>
  \<open>text.split(sep)\<close> for a non-empty separator: \<open>k\<close> counts the characters of a separator
  found that are still to be skipped, \<open>cur\<close> is the part being read.
\<close>

fun split_go :: "string \<Rightarrow> nat \<Rightarrow> string \<Rightarrow> string \<Rightarrow> string list" where
  "split_go sep k cur [] = [cur]"
| "split_go sep k cur (c # cs) =
     (if k > 0 then split_go sep (k - 1) cur cs
      else if take (length sep) (c # cs) = sep then cur # split_go sep (length sep - 1) [] cs
      else split_go sep 0 (cur @ [c]) cs)"

definition split :: "string \<Rightarrow> string \<Rightarrow> string list" where
  "split sep s = split_go sep 0 [] s"

definition fence :: string where
  "fence = replicate 3 (CHR 0x60)"

fun sankey_links :: "bool \<Rightarrow> int \<Rightarrow> rates \<Rightarrow> string list \<Rightarrow> string list" where
  "sankey_links include_failures min_transitions [] lines = lines"
| "sankey_links include_failures min_transitions ((transition, stats) # rest) lines =
     (case split arrow_sep transition of
        [from_s, to_s] \<Rightarrow>
          if rs_successes stats < min_transitions \<and> rs_failures stats < min_transitions
          then sankey_links include_failures min_transitions rest lines
          else
            let lines1 =
                  (if rs_successes stats \<ge> min_transitions
                   then lines @ [from_s @ '','' @ to_s @ '','' @ str_int (rs_successes stats)]
                   else lines);
                lines2 =
                  (if include_failures \<and> rs_failures stats \<ge> min_transitions
                   then lines1 @ [from_s @ '',FAIL,'' @ str_int (rs_failures stats)]
                   else lines1)
            in sankey_links include_failures min_transitions rest lines2
      | _ \<Rightarrow> sankey_links include_failures min_transitions rest lines)"

definition render_sankey :: "rates \<Rightarrow> bool \<Rightarrow> int \<Rightarrow> string" where
  "render_sankey rs include_failures min_transitions =
     (if rs = []
      then fence @ ''mermaid'' @ NL @ ''sankey-beta'' @ NL @ NL @ ''No transitions recorded''
             @ NL @ fence
      else
        let lines0 = [fence @ ''mermaid'', ''---'', ''config:'', ''  sankey:'',
                      ''    showValues: true'', ''---'', ''sankey-beta'', ''''];
            lines1 = sankey_links include_failures min_transitions (sort_key fst rs) lines0
        in join NL (lines1 @ [fence]))"

subsection \<open>The table of a matrix without failures\<close>

text \<open>
  A matrix whose stored counts are all zero, as after rendering a matrix without failures,
  and the rows that the two table renderers produce for it.
\<close>

definition all_zero :: "matrix \<Rightarrow> bool" where
  "all_zero mx = (\<forall>f r t c. (f, r) \<in> set mx \<longrightarrow> (t, c) \<in> set r \<longrightarrow> c = 0)"

definition md_empty_row :: "string list \<Rightarrow> string \<Rightarrow> string" where
  "md_empty_row sts f = ''| **'' @ f @ ''** |'' @ concat (map (\<lambda>t. '' - |'') sts)"

definition ascii_empty_row :: "nat \<Rightarrow> string list \<Rightarrow> string \<Rightarrow> string" where
  "ascii_empty_row w sts f =
     rjust w f @ '' |'' @ concat (map (\<lambda>t. center w middle_dot @ '' '') sts)"

definition ascii_col_width :: "string list \<Rightarrow> nat" where
  "ascii_col_width sts = max (Max (set (map py_len sts))) 4"

section \<open>Transition rates\<close>

text \<open>
  Modelled from the spec: \<open>get_transition_rates\<close>, which \<open>tfm_enhanced_example.py\<close> and
  \<open>tfm_visualizations.py\<close> call on the tracker and which \<open>tfm_decorator.py\<close> does not
  define.  The specification: a mapping from the label \<open>from \<rightarrow> to\<close> to the total, the
  successes, the failures, the failure rate in percent and the average duration of the
  pair, computed by grouping all events by ordered pair; the failure rate is
  \<open>failures / total * 100\<close>, and 0 when the total is 0; the average duration is the
  arithmetic mean of the durations of the pair, and 0 when there is no sample.  The pairs
  are listed in the order in which each first occurs.
\<close>

definition pair_label :: "string \<Rightarrow> string \<Rightarrow> string" where
  "pair_label f t = f @ arrow_sep @ t"

text \<open>\<open>x / n\<close> on a \<open>float\<close> and an \<open>int\<close>\<close>

definition float_div :: "rat \<Rightarrow> int \<Rightarrow> py_error + rat" where
  "float_div x n = (if n = 0 then Inl ZeroDivisionError else Inr (x / of_int n))"

definition pair_stats :: "TransitionEvent list \<Rightarrow> py_error + rate_stats" where
  "pair_stats es =
     (let total = int (length es);
          failures = int (length (filter (\<lambda>e. \<not> success e) es));
          successes = int (length (filter success es))
      in case (if total = 0 then Inr 0
               else case truediv failures total of
                      Inl e \<Rightarrow> Inl e
                    | Inr q \<Rightarrow> Inr (q * 100)) of
           Inl e \<Rightarrow> Inl e
         | Inr rate \<Rightarrow>
             (case (if es = [] then Inr 0
                    else float_div (sum_list (map duration_ms es)) (int (length es))) of
                Inl e \<Rightarrow> Inl e
              | Inr avg \<Rightarrow>
                  Inr \<lparr>rs_total = total, rs_successes = successes, rs_failures = failures,
                       rs_failure_rate = rate, rs_avg_duration_ms = avg\<rparr>))"

definition pair_events :: "TransitionTracker \<Rightarrow> string \<times> string \<Rightarrow> TransitionEvent list" where
  "pair_events tr p = filter (\<lambda>e. from_state e = fst p \<and> to_state e = snd p) (events tr)"

definition event_pairs :: "TransitionTracker \<Rightarrow> (string \<times> string) list" where
  "event_pairs tr = first_occurrences (map (\<lambda>e. (from_state e, to_state e)) (events tr))"

text \<open>The results of a loop whose steps may raise: the first error, or all the values.\<close>

fun collect :: "(py_error + 'a) list \<Rightarrow> py_error + 'a list" where
  "collect [] = Inr []"
| "collect (Inl e # xs) = Inl e"
| "collect (Inr x # xs) = (case collect xs of Inl e \<Rightarrow> Inl e | Inr ys \<Rightarrow> Inr (x # ys))"

definition get_transition_rates :: "TransitionTracker \<Rightarrow> py_error + rates" where
  "get_transition_rates tr =
     collect (map (\<lambda>p. case pair_stats (pair_events tr p) of
                           Inl e \<Rightarrow> Inl e
                         | Inr st \<Rightarrow> Inr (pair_label (fst p) (snd p), st))
                  (event_pairs tr))"

text \<open>The statistics of a group of events, in closed form.\<close>

definition stats_of :: "TransitionEvent list \<Rightarrow> rate_stats" where
  "stats_of es =
     \<lparr>rs_total = int (length es),
      rs_successes = int (length (filter success es)),
      rs_failures = int (length (filter (\<lambda>e. \<not> success e) es)),
      rs_failure_rate =
        (if es = [] then 0
         else of_int (int (length (filter (\<lambda>e. \<not> success e) es))) / of_int (int (length es))
                * 100),
      rs_avg_duration_ms =
        (if es = [] then 0 else sum_list (map duration_ms es) / of_int (int (length es)))\<rparr>"

section \<open>Baseline comparison\<close>

text \<open>
  Modelled from the spec: \<open>compare_to_baseline\<close>, which \<open>tfm_enhanced_example.py\<close> imports
  from \<open>tfm_decorator\<close> and calls as \<open>compare_to_baseline(rates, baseline_rates,
  threshold=0.2)\<close>, but which \<open>tfm_decorator.py\<close> does not define.  The specification: for
  every pair present in both rate mappings, \<open>delta\<close> is the current failure rate (in
  percent) minus the baseline's; a regression is reported when \<open>delta > 0\<close> and
  \<open>delta / max(baseline rate, epsilon) > threshold\<close>; pairs present on one side only are
  ignored.  The record has the keys the caller reads; \<open>percent_increase\<close> is the relative
  increase as a percentage.  The specification leaves \<open>epsilon\<close> open: it is an argument
  here.  The pairs are visited in the order of the current mapping.
\<close>

record regression =
  reg_transition :: string
  reg_baseline_rate :: rat
  reg_current_rate :: rat
  reg_delta :: rat
  reg_percent_increase :: rat

definition regression_of :: "rat \<Rightarrow> rates \<Rightarrow> rat \<Rightarrow> string \<Rightarrow> rate_stats \<Rightarrow> regression list" where
  "regression_of epsilon baseline threshold pair cur =
     (case map_of baseline pair of
        None \<Rightarrow> []
      | Some base \<Rightarrow>
          let delta = rs_failure_rate cur - rs_failure_rate base;
              increase = delta / max (rs_failure_rate base) epsilon
          in if delta > 0 \<and> increase > threshold
             then [\<lparr>reg_transition = pair, reg_baseline_rate = rs_failure_rate base,
                    reg_current_rate = rs_failure_rate cur, reg_delta = delta,
                    reg_percent_increase = increase * 100\<rparr>]
             else [])"

definition compare_to_baseline :: "rat \<Rightarrow> rates \<Rightarrow> rates \<Rightarrow> rat \<Rightarrow> regression list" where
  "compare_to_baseline epsilon current baseline threshold =
     concat (map (\<lambda>(pair, cur). regression_of epsilon baseline threshold pair cur) current)"

text \<open>Sample statistics of a pair, for the scenario of the specification.\<close>

definition stats0 :: rate_stats where
  "stats0 = \<lparr>rs_total = 20, rs_successes = 18, rs_failures = 2, rs_failure_rate = 10,
             rs_avg_duration_ms = 5\<rparr>"

chapter \<open>Verification\<close>

section \<open>Counting invariants\<close>

lemma row_sum_dict_set:
  "row_sum (dict_set t v r) = row_sum r - dd_count r t + v"
  by (induction r) (auto simp: row_sum_def dd_count_def)

lemma matrix_sum_dict_set:
  "matrix_sum (dict_set f r m) = matrix_sum m - row_sum (dd_row m f) + row_sum r"
  by (induction m) (auto simp: matrix_sum_def dd_row_def row_sum_def)

lemma matrix_sum_incr: "matrix_sum (matrix_incr m f t) = matrix_sum m + 1"
  by (simp add: matrix_incr_def Let_def matrix_sum_dict_set row_sum_dict_set)

lemma tracker_step_events:
  "length (events (tracker_call tr a)) = Suc (length (events tr))"
  by (simp add: tracker_call_def tracker_record_transition_def Let_def split: option.splits)

lemma tracker_step_failures:
  "summary_total_failures (tracker_call tr a) =
     summary_total_failures tr + (if arg_success a then 0 else 1)"
  by (simp add: tracker_call_def tracker_record_transition_def summary_total_failures_def
      Let_def split: option.splits)

lemma tracker_step_sum:
  "matrix_sum (matrix (tracker_call tr a)) =
     matrix_sum (matrix tr) + (if arg_success a then 0 else 1)"
  by (simp add: tracker_call_def tracker_record_transition_def Let_def matrix_sum_incr
      split: option.splits)

lemma tracker_fold_counts:
  "matrix_sum (matrix (foldl tracker_call tr calls)) =
     matrix_sum (matrix tr) + int (length (filter (\<lambda>a. \<not> arg_success a) calls))
   \<and> summary_total_failures (foldl tracker_call tr calls) =
     summary_total_failures tr + int (length (filter (\<lambda>a. \<not> arg_success a) calls))
   \<and> summary_total_events (foldl tracker_call tr calls) =
     summary_total_events tr + int (length calls)"
proof (induction calls arbitrary: tr)
  case Nil
  show ?case by simp
next
  case (Cons a calls)
  show ?case
    using Cons.IH [of "tracker_call tr a"]
    by (simp add: tracker_step_sum tracker_step_failures summary_total_events_def
        tracker_step_events)
qed

lemma tfm_step_counts:
  "matrix_sum (tfm_matrix (tfm_record_transition m f t ok)) =
     matrix_sum (tfm_matrix m) + (if ok then 0 else 1)
   \<and> total_failures (tfm_record_transition m f t ok) =
     total_failures m + (if ok then 0 else 1)
   \<and> total_transitions (tfm_record_transition m f t ok) = total_transitions m + 1"
  by (simp add: tfm_record_transition_def record_failure_def Let_def matrix_sum_incr)

lemma tfm_fold_counts:
  "matrix_sum (tfm_matrix (foldl tfm_apply m calls)) =
     matrix_sum (tfm_matrix m) + int (length (filter (\<lambda>(f, t, ok). \<not> ok) calls))
   \<and> total_failures (foldl tfm_apply m calls) =
     total_failures m + int (length (filter (\<lambda>(f, t, ok). \<not> ok) calls))
   \<and> total_transitions (foldl tfm_apply m calls) = total_transitions m + int (length calls)"
proof (induction calls arbitrary: m)
  case Nil
  show ?case by simp
next
  case (Cons c calls)
  obtain f t ok where c: "c = (f, t, ok)" by (cases c)
  show ?case
    using Cons.IH [of "tfm_record_transition m f t ok"] tfm_step_counts [of m f t ok]
    by (simp add: c tfm_apply_def)
qed

text \<open>
  Claim C1.  For every sequence of \<open>record_transition\<close> calls on a fresh tracker (each
  call returning or raising in logging), resp. a fresh matrix (with or without a fixed
  state list): the sum of all counts in the failure
  matrix is the number of recorded calls with \<open>success = False\<close>, which is also
  \<open>total_failures\<close>; and \<open>total_events\<close>, resp. \<open>total_transitions\<close>, is the number of calls.
\<close>

theorem C1_counts:
  "matrix_sum (matrix (foldl tracker_call tracker_init calls)) =
     int (length (filter (\<lambda>a. \<not> arg_success a) calls))
   \<and> summary_total_failures (foldl tracker_call tracker_init calls) =
     matrix_sum (matrix (foldl tracker_call tracker_init calls))
   \<and> summary_total_events (foldl tracker_call tracker_init calls) =
     int (length calls)
   \<and> matrix_sum (tfm_matrix (foldl tfm_apply (tfm_init sts) tcalls)) =
     int (length (filter (\<lambda>(f, t, ok). \<not> ok) tcalls))
   \<and> total_failures (foldl tfm_apply (tfm_init sts) tcalls) =
     matrix_sum (tfm_matrix (foldl tfm_apply (tfm_init sts) tcalls))
   \<and> total_transitions (foldl tfm_apply (tfm_init sts) tcalls) = int (length tcalls)"
  using tracker_fold_counts [of tracker_init calls] tfm_fold_counts [of "tfm_init sts" tcalls]
  by (simp add: tracker_init_def tfm_init_def matrix_sum_def summary_total_failures_def
      summary_total_events_def)

section \<open>Recording one transition\<close>

lemma map_of_dict_set: "map_of (dict_set k v l) = (map_of l)(k \<mapsto> v)"
  by (induction l) (auto simp: fun_eq_iff)

lemma matrix_count_incr:
  "matrix_count (matrix_incr m f t) f' t' =
     matrix_count m f' t' + (if f' = f \<and> t' = t then 1 else 0)"
  by (simp add: matrix_count_def matrix_incr_def Let_def dd_row_def dd_count_def map_of_dict_set)

text \<open>
  Claim C2, as stated, has \<open>record_transition\<close> never raise.  The call of \<open>logger.info\<close> is
  not guarded: when a logging handler raises, the exception leaves \<open>record_transition\<close>
  after the event was appended and before the current state is set.
\<close>

theorem C2_counterexample:
  "fst (tracker_record_transition tracker_init
          (args0\<lparr>arg_log := Some (PyExc True (Inr ''handler failed''))\<rparr>))
     = Raised (PyExc True (Inr ''handler failed''))
   \<and> length (events (snd (tracker_record_transition tracker_init
          (args0\<lparr>arg_log := Some (PyExc True (Inr ''handler failed''))\<rparr>)))) = 1
   \<and> current_state (snd (tracker_record_transition tracker_init
          (args0\<lparr>arg_log := Some (PyExc True (Inr ''handler failed''))\<rparr>))) ''default'' = None"
  by (simp add: tracker_record_transition_def tracker_init_def args0_def Let_def)

text \<open>
  Claim C2, amended.  A call of the tracker's \<open>record_transition\<close> appends one event built
  from its arguments; the failure count of \<open>(from_state, to_state)\<close> grows by one exactly
  when \<open>success\<close> is false, and no other count changes.  The call raises exactly when the
  logging call raises, with that exception, for all state names.  The current state of
  \<open>workflow_id\<close> becomes \<open>to_state\<close> exactly when \<open>success\<close> is true and the call returns,
  and the mapping is unchanged otherwise.
\<close>

theorem C2_record_transition:
  "events (snd (tracker_record_transition tr a)) =
     events tr @ [\<lparr>from_state = arg_from a, to_state = arg_to a, success = arg_success a,
                   timestamp = arg_now a, duration_ms = arg_duration_ms a,
                   error_message = arg_error_message a, metadata = arg_metadata a\<rparr>]
   \<and> matrix (snd (tracker_record_transition tr a)) =
       (if arg_success a then matrix tr else matrix_incr (matrix tr) (arg_from a) (arg_to a))
   \<and> matrix_count (matrix (snd (tracker_record_transition tr a))) f t =
       matrix_count (matrix tr) f t +
         (if \<not> arg_success a \<and> f = arg_from a \<and> t = arg_to a then 1 else 0)
   \<and> fst (tracker_record_transition tr a) =
       (case arg_log a of None \<Rightarrow> Returned () | Some e \<Rightarrow> Raised e)
   \<and> current_state (snd (tracker_record_transition tr a)) =
       (if arg_success a \<and> arg_log a = None
        then (current_state tr)(arg_workflow_id a \<mapsto> arg_to a)
        else current_state tr)"
  by (cases "arg_log a")
     (simp_all add: tracker_record_transition_def Let_def matrix_count_incr)

section \<open>Hotspots\<close>

lemma hotspots_as_filter:
  "concat (map (\<lambda>(f, to_states).
      map (\<lambda>(t, c). (f, t, c)) (filter (\<lambda>(t, c). c \<ge> k) to_states)) m)
   = filter (\<lambda>x. hs_count x \<ge> k) (matrix_items m)"
proof (induction m)
  case Nil
  show ?case by (simp add: matrix_items_def)
next
  case (Cons p m)
  obtain f r where p: "p = (f, r)" by (cases p)
  have "map (\<lambda>(t, c). (f, t, c)) (filter (\<lambda>(t, c). c \<ge> k) r)
        = filter (\<lambda>x. hs_count x \<ge> k) (map (\<lambda>(t, c). (f, t, c)) r)"
    by (induction r) (auto simp: hs_count_def)
  with Cons show ?case by (simp add: p matrix_items_def)
qed

lemma get_hotspots_eq:
  "get_hotspots m k =
     sort_key (\<lambda>x. - hs_count x) (filter (\<lambda>x. hs_count x \<ge> k) (matrix_items m))"
  by (simp only: get_hotspots_def Let_def hotspots_as_filter)

subsection \<open>The iteration order of a recorded matrix\<close>

lemma keys_dict_set:
  "map fst (dict_set k v l) = (if k \<in> fst ` set l then map fst l else map fst l @ [k])"
proof (induction l)
  case Nil
  show ?case by simp
next
  case (Cons p l)
  obtain a b where p: "p = (a, b)" by (cases p)
  show ?case
  proof (cases "a = k")
    case True
    then show ?thesis by (simp add: p)
  next
    case False
    then have "(k \<in> fst ` set (p # l)) = (k \<in> fst ` set l)" by (auto simp: p)
    then show ?thesis using False Cons.IH by (simp add: p)
  qed
qed

lemma first_occurrences_snoc:
  "first_occurrences (xs @ [x]) =
     (if x \<in> set xs then first_occurrences xs else first_occurrences xs @ [x])"
  by (simp add: first_occurrences_def)

lemma set_first_occurrences: "set (first_occurrences xs) = set xs"
  by (simp add: first_occurrences_def)

lemma dd_row_incr:
  "dd_row (matrix_incr m f t) f' =
     (if f' = f then dict_set t (dd_count (dd_row m f) t + 1) (dd_row m f) else dd_row m f')"
  by (simp add: matrix_incr_def Let_def dd_row_def map_of_dict_set)

lemma keys_matrix_incr:
  "map fst (matrix_incr m f t) = (if f \<in> fst ` set m then map fst m else map fst m @ [f])"
  by (simp add: matrix_incr_def Let_def keys_dict_set)

lemma failed_pairs_snoc:
  "failed_pairs (calls @ [(f, t, ok)]) = failed_pairs calls @ (if ok then [] else [(f, t)])"
  by (simp add: failed_pairs_def)

lemma tfm_matrix_step:
  "tfm_matrix (tfm_apply m (f, t, ok)) =
     (if ok then tfm_matrix m else matrix_incr (tfm_matrix m) f t)"
  by (simp add: tfm_apply_def tfm_record_transition_def record_failure_def Let_def)

lemma tfm_matrix_order:
  "map fst (tfm_matrix (foldl tfm_apply (tfm_init sts) calls)) =
     first_occurrences (map fst (failed_pairs calls))
   \<and> (\<forall>f. map fst (dd_row (tfm_matrix (foldl tfm_apply (tfm_init sts) calls)) f) =
     first_occurrences (map snd (filter (\<lambda>p. fst p = f) (failed_pairs calls))))
   \<and> (\<forall>f t. matrix_count (tfm_matrix (foldl tfm_apply (tfm_init sts) calls)) f t =
     int (count_list (failed_pairs calls) (f, t)))"
proof (induction calls rule: rev_induct)
  case Nil
  show ?case
    by (simp add: tfm_init_def failed_pairs_def first_occurrences_def dd_row_def
        matrix_count_def dd_count_def)
next
  case (snoc c calls)
  obtain f t ok where c: "c = (f, t, ok)" by (cases c)
  let ?M = "tfm_matrix (foldl tfm_apply (tfm_init sts) calls)"
  let ?F = "failed_pairs calls"
  from snoc have k: "map fst ?M = first_occurrences (map fst ?F)"
    and r: "\<And>g. map fst (dd_row ?M g) =
              first_occurrences (map snd (filter (\<lambda>p. fst p = g) ?F))"
    and n: "\<And>g u. matrix_count ?M g u = int (count_list ?F (g, u))"
    by blast+
  have ks: "fst ` set ?M = fst ` set ?F"
    using arg_cong [OF k, of set] by (simp add: set_first_occurrences)
  have rs: "\<And>g. fst ` set (dd_row ?M g) = snd ` {p \<in> set ?F. fst p = g}"
    using arg_cong [OF r, of set] by (simp add: set_first_occurrences)
  show ?case
  proof (cases ok)
    case True
    then show ?thesis using k r n by (simp add: c tfm_matrix_step failed_pairs_snoc)
  next
    case False
    have 1: "map fst (matrix_incr ?M f t) = first_occurrences (map fst (?F @ [(f, t)]))"
      using ks by (simp add: keys_matrix_incr first_occurrences_snoc k)
    have 2: "map fst (dd_row (matrix_incr ?M f t) g) =
              first_occurrences (map snd (filter (\<lambda>p. fst p = g) (?F @ [(f, t)])))" for g
      using rs [of f] by (auto simp: dd_row_incr keys_dict_set first_occurrences_snoc r)
    have 3: "matrix_count (matrix_incr ?M f t) g u = int (count_list (?F @ [(f, t)]) (g, u))"
      for g u
      by (simp add: matrix_count_incr n)
    show ?thesis using False 1 2 3 by (simp add: c tfm_matrix_step failed_pairs_snoc)
  qed
qed

lemma row_as_keys:
  "distinct (map fst r) \<Longrightarrow> map (\<lambda>t. (t, dd_count r t)) (map fst r) = r"
proof (induction r)
  case Nil
  show ?case by simp
next
  case (Cons p r)
  obtain t c where p: "p = (t, c)" by (cases p)
  from Cons.prems have nt: "t \<notin> set (map fst r)" and d: "distinct (map fst r)"
    by (simp_all add: p)
  have h: "dd_count (p # r) t = c" by (simp add: dd_count_def p)
  have eq: "map (\<lambda>u. (u, dd_count (p # r) u)) (map fst r) =
            map (\<lambda>u. (u, dd_count r u)) (map fst r)"
  proof (rule map_cong [OF refl])
    fix u assume "u \<in> set (map fst r)"
    with nt have "u \<noteq> t" by auto
    then show "(u, dd_count (p # r) u) = (u, dd_count r u)" by (simp add: dd_count_def p)
  qed
  have "map (\<lambda>u. (u, dd_count (p # r) u)) (map fst (p # r)) =
          (t, dd_count (p # r) t) # map (\<lambda>u. (u, dd_count (p # r) u)) (map fst r)"
    by (simp add: p)
  also have "\<dots> = (t, c) # r" by (simp only: h eq Cons.IH [OF d])
  finally show ?case by (simp only: p)
qed

lemma matrix_as_keys:
  "distinct (map fst m) \<Longrightarrow> map (\<lambda>f. (f, dd_row m f)) (map fst m) = m"
proof (induction m)
  case Nil
  show ?case by simp
next
  case (Cons p m)
  obtain f r where p: "p = (f, r)" by (cases p)
  from Cons.prems have nf: "f \<notin> set (map fst m)" and d: "distinct (map fst m)"
    by (simp_all add: p)
  have h: "dd_row (p # m) f = r" by (simp add: dd_row_def p)
  have eq: "map (\<lambda>g. (g, dd_row (p # m) g)) (map fst m) =
            map (\<lambda>g. (g, dd_row m g)) (map fst m)"
  proof (rule map_cong [OF refl])
    fix g assume "g \<in> set (map fst m)"
    with nf have "g \<noteq> f" by auto
    then show "(g, dd_row (p # m) g) = (g, dd_row m g)" by (simp add: dd_row_def p)
  qed
  have "map (\<lambda>g. (g, dd_row (p # m) g)) (map fst (p # m)) =
          (f, dd_row (p # m) f) # map (\<lambda>g. (g, dd_row (p # m) g)) (map fst m)"
    by (simp add: p)
  also have "\<dots> = (f, r) # m" by (simp only: h eq Cons.IH [OF d])
  finally show ?case by (simp only: p)
qed

lemma matrix_items_by_keys:
  assumes dm: "distinct (map fst m)" and dr: "\<And>f. distinct (map fst (dd_row m f))"
  shows "matrix_items m =
           concat (map (\<lambda>f. map (\<lambda>t. (f, t, matrix_count m f t)) (map fst (dd_row m f)))
                       (map fst m))"
proof -
  have "matrix_items m =
          concat (map (\<lambda>(f, r). map (\<lambda>(t, c). (f, t, c)) r) (map (\<lambda>f. (f, dd_row m f)) (map fst m)))"
    by (simp only: matrix_as_keys [OF dm] matrix_items_def)
  also have "\<dots> = concat (map (\<lambda>f. map (\<lambda>(t, c). (f, t, c)) (dd_row m f)) (map fst m))"
    by (simp add: comp_def)
  also have "\<dots> = concat (map (\<lambda>f. map (\<lambda>(t, c). (f, t, c))
                        (map (\<lambda>t. (t, dd_count (dd_row m f) t)) (map fst (dd_row m f))))
                      (map fst m))"
    by (simp only: row_as_keys [OF dr])
  also have "\<dots> = concat (map (\<lambda>f. map (\<lambda>t. (f, t, matrix_count m f t)) (map fst (dd_row m f)))
                       (map fst m))"
    by (simp add: comp_def matrix_count_def)
  finally show ?thesis .
qed

lemma distinct_first_occurrences: "distinct (first_occurrences xs)"
  by (simp add: first_occurrences_def)

lemma tfm_matrix_items:
  "matrix_items (tfm_matrix (foldl tfm_apply (tfm_init sts) calls)) =
     items_by_row (failed_pairs calls)"
proof -
  let ?M = "tfm_matrix (foldl tfm_apply (tfm_init sts) calls)"
  let ?F = "failed_pairs calls"
  from tfm_matrix_order [of sts calls]
  have k: "map fst ?M = first_occurrences (map fst ?F)"
    and r: "\<And>g. map fst (dd_row ?M g) =
              first_occurrences (map snd (filter (\<lambda>p. fst p = g) ?F))"
    and n: "\<And>g u. matrix_count ?M g u = int (count_list ?F (g, u))"
    by blast+
  have "matrix_items ?M =
          concat (map (\<lambda>f. map (\<lambda>t. (f, t, matrix_count ?M f t)) (map fst (dd_row ?M f)))
                      (map fst ?M))"
    by (rule matrix_items_by_keys) (simp_all add: k r distinct_first_occurrences)
  then show ?thesis by (simp add: items_by_row_def k r n)
qed

text \<open>
  Claim C3, as the specification states it, breaks ties by the order in which the pairs
  first failed.  The code iterates a dictionary of rows: after failures of \<open>A \<rightarrow> B\<close>,
  \<open>C \<rightarrow> D\<close> and \<open>A \<rightarrow> E\<close>, all with count 1, the pair \<open>A \<rightarrow> E\<close> comes before \<open>C \<rightarrow> D\<close>
  although it failed later.
\<close>

theorem C3_counterexample:
  "tfm_get_hotspots (foldl tfm_apply (tfm_init None)
       [(''A'', ''B'', False), (''C'', ''D'', False), (''A'', ''E'', False)]) 1
     = [(''A'', ''B'', 1), (''A'', ''E'', 1), (''C'', ''D'', 1)]
   \<and> hotspots_by_first_occurrence
       [(''A'', ''B'', False), (''C'', ''D'', False), (''A'', ''E'', False)] 1
     = [(''A'', ''B'', 1), (''C'', ''D'', 1), (''A'', ''E'', 1)]"
  by (simp add: tfm_get_hotspots_def get_hotspots_def tfm_apply_def tfm_init_def
      tfm_record_transition_def record_failure_def matrix_incr_def dd_row_def dd_count_def
      hotspots_by_first_occurrence_def failed_pairs_def first_occurrences_def hs_count_def Let_def)

text \<open>
  Claim C3, amended.  For every failure matrix and every \<open>min_count\<close>, \<open>get_hotspots\<close>
  returns exactly the entries of the matrix with count at least \<open>min_count\<close> (as a
  multiset), sorted by count descending, and entries with equal counts keep the order in
  which the matrix iterates: row by row, and inside a row entry by entry.  For a matrix
  built by \<open>record_transition\<close> calls, the rows are in the order in which each source state
  first failed, and the entries of a row in the order in which each target first failed
  from that source.  The result is a function of the matrix alone and the matrix is not
  changed, so two calls on the same state return the same sequence.
\<close>

theorem C3_hotspots:
  "mset (get_hotspots m k) = mset (filter (\<lambda>x. hs_count x \<ge> k) (matrix_items m))
   \<and> sorted_wrt (\<lambda>x y. hs_count x \<ge> hs_count y) (get_hotspots m k)
   \<and> (\<forall>c. filter (\<lambda>x. hs_count x = c) (get_hotspots m k) =
            filter (\<lambda>x. hs_count x = c \<and> c \<ge> k) (matrix_items m))
   \<and> tfm_get_hotspots (foldl tfm_apply (tfm_init sts) calls) k =
       sort_key (\<lambda>x. - hs_count x)
         (filter (\<lambda>x. hs_count x \<ge> k) (items_by_row (failed_pairs calls)))"
proof -
  let ?xs = "filter (\<lambda>x. hs_count x \<ge> k) (matrix_items m)"
  have s: "sorted (map (\<lambda>x. - hs_count x) (get_hotspots m k))"
    by (simp add: get_hotspots_eq)
  have 2: "sorted_wrt (\<lambda>x y. hs_count x \<ge> hs_count y) (get_hotspots m k)"
    using s by (simp add: sorted_map)
  have 3: "filter (\<lambda>x. hs_count x = c) (get_hotspots m k) =
            filter (\<lambda>x. hs_count x = c \<and> c \<ge> k) (matrix_items m)" for c
  proof -
    have "filter (\<lambda>x. - hs_count x = - c) (sort_key (\<lambda>x. - hs_count x) ?xs)
          = filter (\<lambda>x. - hs_count x = - c) ?xs"
      by (rule sort_key_stable)
    then show ?thesis
      by (simp add: get_hotspots_eq) (metis (mono_tags, lifting) filter_cong)
  qed
  have 4: "tfm_get_hotspots (foldl tfm_apply (tfm_init sts) calls) k =
       sort_key (\<lambda>x. - hs_count x)
         (filter (\<lambda>x. hs_count x \<ge> k) (items_by_row (failed_pairs calls)))"
    by (simp only: tfm_get_hotspots_def get_hotspots_eq tfm_matrix_items)
  have 1: "mset (get_hotspots m k) = mset ?xs"
    by (simp add: get_hotspots_eq)
  show ?thesis using 1 2 3 4 by blast
qed

section \<open>Current state\<close>

lemma apply_op_current:
  "get_current_state (apply_op tr x) wid =
     (case entered x wid of Some s \<Rightarrow> Some s | None \<Rightarrow> get_current_state tr wid)"
  by (cases x)
     (auto simp: get_current_state_def set_state_def tracker_call_def
        tracker_record_transition_def Let_def split: option.splits)

lemma foldl_apply_op_current:
  "get_current_state (foldl apply_op tr ops) wid =
     (case last_entered ops wid of Some s \<Rightarrow> Some s | None \<Rightarrow> get_current_state tr wid)"
proof (induction ops arbitrary: tr)
  case Nil
  show ?case by simp
next
  case (Cons x xs)
  show ?case
    using Cons.IH [of "apply_op tr x"]
    by (simp add: apply_op_current split: option.splits)
qed

text \<open>
  Claim C5, as stated, has \<open>get_current_state\<close> return the sentinel \<open>"START"\<close> for a workflow
  that never entered a state.  The method is \<open>self.current_state.get(workflow_id)\<close>: on a
  fresh tracker it returns \<open>None\<close>.
\<close>

theorem C5_counterexample:
  "get_current_state tracker_init ''default'' = None
   \<and> get_current_state tracker_init ''default'' \<noteq> Some ''START''"
  by (simp add: get_current_state_def tracker_init_def)

text \<open>
  Claim C5, amended.  After any sequence of \<open>record_transition\<close> and \<open>set_state\<close> calls on a
  fresh tracker, \<open>get_current_state(workflow_id)\<close> is a lookup that returns the state most
  recently entered for that workflow, by a successful record that returned or by
  \<open>set_state\<close>, and \<open>None\<close> when there is none.  The sentinel is supplied by the decorator, which reads
  \<open>get_current_state(workflow_id) or "START"\<close>: its source state is \<open>"START"\<close> when the
  lookup gives \<open>None\<close> or the empty string, and the state looked up otherwise.
\<close>

theorem C5_current_state:
  "get_current_state (foldl apply_op tracker_init ops) wid = last_entered ops wid
   \<and> wrapper_from_state (foldl apply_op tracker_init ops) wid =
       (case last_entered ops wid of
          None \<Rightarrow> ''START''
        | Some s \<Rightarrow> if s = [] then ''START'' else s)"
proof -
  have "get_current_state tracker_init wid = None"
    by (simp add: get_current_state_def tracker_init_def)
  then have "get_current_state (foldl apply_op tracker_init ops) wid = last_entered ops wid"
    by (simp add: foldl_apply_op_current split: option.splits)
  then show ?thesis by (simp add: wrapper_from_state_def)
qed

section \<open>The decorator\<close>

lemma record_returns:
  "arg_log a = None \<Longrightarrow>
     tracker_record_transition tr a =
       (Returned (),
        if arg_success a
        then tr\<lparr>events := events tr @
                  [\<lparr>from_state = arg_from a, to_state = arg_to a, success = True,
                    timestamp = arg_now a, duration_ms = arg_duration_ms a,
                    error_message = arg_error_message a, metadata = arg_metadata a\<rparr>],
                current_state := (current_state tr)(arg_workflow_id a \<mapsto> arg_to a)\<rparr>
        else tr\<lparr>events := events tr @
                  [\<lparr>from_state = arg_from a, to_state = arg_to a, success = False,
                    timestamp = arg_now a, duration_ms = arg_duration_ms a,
                    error_message = arg_error_message a, metadata = arg_metadata a\<rparr>],
                matrix := matrix_incr (matrix tr) (arg_from a) (arg_to a)\<rparr>)"
  by (simp add: tracker_record_transition_def Let_def)

lemma sync_returned:
  assumes "func tr = (Returned v, tr1)" "env_log env = None"
  shows "sync_wrapper s w func env tr =
           (Returned v,
            tr1\<lparr>events := events tr1 @ [wrapper_event (wrapper_from_state tr w) s True env None],
                current_state := (current_state tr1)(w \<mapsto> s)\<rparr>)"
  using assms
  by (simp add: sync_wrapper_def Let_def record_returns wrapper_args_def wrapper_event_def)

lemma sync_raised_Exception:
  assumes "func tr = (Raised e, tr1)" "env_log env = None" "exc_is_Exception e"
    "exc_str e = Inr msg"
  shows "sync_wrapper s w func env tr =
           (Raised e,
            tr1\<lparr>events := events tr1 @
                   [wrapper_event (wrapper_from_state tr w) s False env (Some msg)],
                matrix := matrix_incr (matrix tr1) (wrapper_from_state tr w) s\<rparr>)"
  using assms
  by (simp add: sync_wrapper_def wrapper_handler_def Let_def record_returns wrapper_args_def
      wrapper_event_def)

lemma sync_raised_other:
  assumes "func tr = (Raised e, tr1)" "\<not> exc_is_Exception e"
  shows "sync_wrapper s w func env tr = (Raised e, tr1)"
  using assms by (simp add: sync_wrapper_def wrapper_handler_def Let_def)

text \<open>
  The two paths on which the wrapper changes the outcome: \<open>str(e)\<close> raises in the handler,
  and \<open>record_transition\<close> raises on the success path, inside the \<open>try\<close>.
\<close>

lemma sync_str_raises:
  assumes "func tr = (Raised e, tr1)" "exc_is_Exception e" "exc_str e = Inl e2"
  shows "sync_wrapper s w func env tr = (Raised e2, tr1)"
  using assms by (simp add: sync_wrapper_def wrapper_handler_def Let_def)

lemma sync_record_raises:
  assumes "func tr = (Returned v, tr1)" "env_log env = Some e1" "exc_is_Exception e1"
    "exc_str e1 = Inr msg" "env_log2 env = None"
  shows "fst (sync_wrapper s w func env tr) = Raised e1"
    and "length (events (snd (sync_wrapper s w func env tr))) = length (events tr1) + 2"
  using assms
  by (simp_all add: sync_wrapper_def wrapper_handler_def Let_def tracker_record_transition_def
      wrapper_args_def)

lemma async_is_sync: "async_wrapper s w func env tr = sync_wrapper s w func env tr"
  by (simp add: async_wrapper_def sync_wrapper_def)

text \<open>
  Claim C7, as stated, has the wrapper record a failure whenever the wrapped function
  raises.  The handler is \<open>except Exception\<close>: an exception that derives from
  \<open>BaseException\<close> only passes through it, and nothing is recorded.
\<close>

theorem C7_counterexample:
  "sync_wrapper ''Parse'' ''default''
       (\<lambda>tr. (Raised (PyExc False (Inr ''exit'')) :: unit outcome, tr)) env0 tracker_init
     = (Raised (PyExc False (Inr ''exit'')), tracker_init)
   \<and> events tracker_init = []"
  by (simp add: sync_wrapper_def wrapper_handler_def tracker_init_def)

text \<open>
  Claim C7, amended.  For both wrappers of \<open>track_state\<close>, when the logging call inside
  \<open>record_transition\<close> returns and \<open>str(e)\<close> returns: if the wrapped function returns a value,
  the wrapper returns that value after recording a success, from the state inferred before
  the call to the decorator's state name (one event appended, the current state of the
  workflow set to the state name); if it raises an instance of \<open>Exception\<close>, the wrapper
  re-raises that exception after recording a failure (one event appended whose error
  message is \<open>str(e)\<close>, the failure count of the pair incremented, the current state left
  as it is); if it raises any other exception, the wrapper lets it through and records
  nothing.  Beyond that the tracker after the wrapper is the tracker the function left.
\<close>

theorem C7_wrapper:
  "func tr = (res, tr1) \<Longrightarrow> env_log env = None \<Longrightarrow>
     (\<forall>v. res = Returned v \<longrightarrow>
        sync_wrapper s w func env tr =
          (Returned v,
           tr1\<lparr>events := events tr1 @ [wrapper_event (wrapper_from_state tr w) s True env None],
               current_state := (current_state tr1)(w \<mapsto> s)\<rparr>))
   \<and> (\<forall>e msg. res = Raised e \<and> exc_is_Exception e \<and> exc_str e = Inr msg \<longrightarrow>
        sync_wrapper s w func env tr =
          (Raised e,
           tr1\<lparr>events := events tr1 @
                  [wrapper_event (wrapper_from_state tr w) s False env (Some msg)],
               matrix := matrix_incr (matrix tr1) (wrapper_from_state tr w) s\<rparr>))
   \<and> (\<forall>e. res = Raised e \<and> \<not> exc_is_Exception e \<longrightarrow>
        sync_wrapper s w func env tr = (Raised e, tr1))
   \<and> async_wrapper s w func env tr = sync_wrapper s w func env tr"
  by (auto simp: sync_returned sync_raised_Exception sync_raised_other async_is_sync)

theorem C7_wrapper_witness:
  "(\<lambda>tr. (Raised (PyExc True (Inr ''boom'')) :: unit outcome, tr)) tracker_init
     = (Raised (PyExc True (Inr ''boom'')), tracker_init)
   \<and> env_log env0 = None
   \<and> sync_wrapper ''Parse'' ''default''
       (\<lambda>tr. (Raised (PyExc True (Inr ''boom'')) :: unit outcome, tr)) env0 tracker_init
     = (Raised (PyExc True (Inr ''boom'')),
        \<lparr>events = [\<lparr>from_state = ''START'', to_state = ''Parse'', success = False,
                     timestamp = 7, duration_ms = 1000, error_message = Some ''boom'',
                     metadata = []\<rparr>],
         current_state = Map.empty,
         matrix = [(''START'', [(''Parse'', 1)])]\<rparr>)
   \<and> async_wrapper ''Parse'' ''default''
       (\<lambda>tr. (Raised (PyExc True (Inr ''boom'')) :: unit outcome, tr)) env0 tracker_init
     = sync_wrapper ''Parse'' ''default''
       (\<lambda>tr. (Raised (PyExc True (Inr ''boom'')) :: unit outcome, tr)) env0 tracker_init"
  using C7_wrapper [of "\<lambda>tr. (Raised (PyExc True (Inr ''boom'')) :: unit outcome, tr)"
      tracker_init "Raised (PyExc True (Inr ''boom''))" tracker_init env0
      "''Parse''" "''default''"]
  by (simp add: wrapper_event_def wrapper_from_state_def get_current_state_def
      tracker_init_def env0_def matrix_incr_def dd_row_def dd_count_def)

section \<open>The log parser\<close>

lemma upper_Cons_ascii:
  "is_ascii ch \<Longrightarrow> upper U (ch # chs) = to_upper (hd ch) # upper U chs"
  by (cases ch) (auto simp: upper_def is_ascii_def split: list.splits if_splits)

lemma upper_Nil: "upper U [] = []"
  by (simp add: upper_def)

lemma ci_match_ascii: "is_ascii ch \<Longrightarrow> ci_match U p ch \<Longrightarrow> to_upper (hd ch) = to_upper p"
  by (cases ch) (auto simp: ci_match_def is_ascii_def split: list.splits if_splits)

lemma ci_prefix_upper:
  "ci_prefix U p s \<Longrightarrow> \<forall>ch \<in> set (take (length p) s). is_ascii ch \<Longrightarrow>
     upper U (take (length p) s) = map to_upper p"
  by (induction U p s rule: ci_prefix.induct)
     (auto simp: upper_Nil upper_Cons_ascii ci_match_ascii)

lemma upper_SUCCESS: "map to_upper ''SUCCESS'' = ''SUCCESS''"
  by code_simp

lemma upper_FAILURE: "map to_upper ''FAILURE'' = ''FAILURE''"
  by code_simp

lemma ci_prefix_SUCCESS:
  assumes "ci_prefix U ''SUCCESS'' s" "\<forall>ch \<in> set (take 7 s). is_ascii ch"
  shows "upper U (take 7 s) = ''SUCCESS''"
proof -
  have l: "length ''SUCCESS'' = 7" by simp
  from ci_prefix_upper [OF assms(1)] assms(2) show ?thesis unfolding l upper_SUCCESS by blast
qed

lemma ci_prefix_FAILURE:
  assumes "ci_prefix U ''FAILURE'' s" "\<forall>ch \<in> set (take 7 s). is_ascii ch"
  shows "upper U (take 7 s) = ''FAILURE''"
proof -
  have l: "length ''FAILURE'' = 7" by simp
  from ci_prefix_upper [OF assms(1)] assms(2) show ?thesis unfolding l upper_FAILURE by blast
qed

lemma match_result_upper:
  "match_result U s = Some r \<Longrightarrow> \<forall>ch \<in> set r. is_ascii ch \<Longrightarrow>
     upper U r = ''SUCCESS'' \<or> upper U r = ''FAILURE''"
  by (auto simp: match_result_def Let_def split: if_splits
      dest: ci_prefix_SUCCESS ci_prefix_FAILURE)

lemma match_to_upper:
  "match_to U n s = Some (t, r) \<Longrightarrow> \<forall>ch \<in> set r. is_ascii ch \<Longrightarrow>
     upper U r = ''SUCCESS'' \<or> upper U r = ''FAILURE''"
  by (induction n) (auto split: option.splits dest: match_result_upper)

lemma match_transition_here_upper:
  "match_transition_here U s = Some (f, t, r) \<Longrightarrow> \<forall>ch \<in> set r. is_ascii ch \<Longrightarrow>
     upper U r = ''SUCCESS'' \<or> upper U r = ''FAILURE''"
  by (auto simp: match_transition_here_def Let_def split: if_splits option.splits
      dest: match_to_upper)

lemma search_transition_upper:
  "search_transition U s = Some (f, t, r) \<Longrightarrow> \<forall>ch \<in> set r. is_ascii ch \<Longrightarrow>
     upper U r = ''SUCCESS'' \<or> upper U r = ''FAILURE''"
  by (induction s) (auto split: option.splits dest: match_transition_here_upper)

lemma search_transition_nonempty: "search_transition U s = Some g \<Longrightarrow> s \<noteq> []"
  by auto

lemma search_state_nonempty: "search_state U s = Some g \<Longrightarrow> s \<noteq> []"
  by auto

lemma parse_loop_snoc: "parse_loop U st (ls @ [l]) = parse_line U (parse_loop U st ls) l"
  by (induction ls arbitrary: st) simp_all

lemma parse_line_state:
  "snd (parse_line U (m, cur) l) =
     (case line_state U l of Some s \<Rightarrow> Some s | None \<Rightarrow> cur)"
  by (simp add: parse_line_def line_state_def Let_def split: option.splits)

lemma last_seen_snoc:
  "last_seen U (ls @ [l]) =
     (case line_state U l of Some s \<Rightarrow> Some s | None \<Rightarrow> last_seen U ls)"
  by (induction ls) (simp_all split: option.splits)

lemma parse_loop_state:
  "snd (parse_loop U (m, cur) ls) =
     (case last_seen U ls of Some s \<Rightarrow> Some s | None \<Rightarrow> cur)"
proof (induction ls rule: rev_induct)
  case Nil
  show ?case by simp
next
  case (snoc l ls)
  obtain m' cur' where p: "parse_loop U (m, cur) ls = (m', cur')"
    by (cases "parse_loop U (m, cur) ls")
  from snoc p have c: "cur' = (case last_seen U ls of Some s \<Rightarrow> Some s | None \<Rightarrow> cur)"
    by simp
  show ?case
    by (simp add: parse_loop_snoc p parse_line_state last_seen_snoc c split: option.splits)
qed

lemma parse_loop_init:
  "parse_loop U (tfm_init sts, None) ls = (parse_lines U sts ls, last_seen U ls)"
  using parse_loop_state [of U "tfm_init sts" None ls]
  by (cases "parse_loop U (tfm_init sts, None) ls")
     (simp add: parse_lines_def split: option.splits)

lemma parse_lines_eq:
  "parse_loop U (tfm_init sts, None) ls = (m, c) \<Longrightarrow> parse_lines U sts ls = m"
  by (simp add: parse_lines_def)

lemma parse_loop_init_snoc:
  "parse_loop U (tfm_init sts, None) (ls @ [l]) =
     parse_line U (parse_lines U sts ls, last_seen U ls) l"
  by (simp only: parse_loop_snoc parse_loop_init)

lemma transition_line_step:
  "search_transition U (strip U l) = Some (f, t, r) \<Longrightarrow>
     parse_line U (m, cur) l =
       (tfm_record_transition m f t (upper U r = ''SUCCESS''),
        Some (if upper U r = ''SUCCESS'' then t else f))"
proof -
  assume h: "search_transition U (strip U l) = Some (f, t, r)"
  then have "strip U l \<noteq> []" by auto
  then show ?thesis using h by (simp add: parse_line_def Let_def)
qed

lemma state_line_step:
  "search_transition U (strip U l) = None \<Longrightarrow> search_state U (strip U l) = Some n \<Longrightarrow>
     parse_line U (m, cur) l =
       ((case cur of
           Some c \<Rightarrow>
             if c \<noteq> [] \<and> c \<noteq> n
             then tfm_record_transition m c n (\<not> search_error U (strip U l))
             else m
         | None \<Rightarrow> m),
        Some n)"
proof -
  assume t: "search_transition U (strip U l) = None" and s: "search_state U (strip U l) = Some n"
  from s have "strip U l \<noteq> []" by auto
  then show ?thesis using t s by (simp add: parse_line_def Let_def)
qed

lemma other_line_step:
  "strip U l = [] \<or> (search_transition U (strip U l) = None \<and> search_state U (strip U l) = None)
     \<Longrightarrow> parse_line U (m, cur) l = (m, cur)"
  by (auto simp: parse_line_def Let_def)

text \<open>
  Claim C10.  For every sequence of lines \<open>ls\<close> and every next line \<open>l\<close> whose stripped
  text has a match of the explicit \<open>TRANSITION\<close> pattern with groups \<open>(from, to, result)\<close>:
  \<open>parse_lines\<close> records that transition, as a success exactly when \<open>result.upper()\<close> is
  \<open>SUCCESS\<close>, and the parser's current state after the line is \<open>to\<close> in that case and
  \<open>from\<close> otherwise, whatever it was before; for a result in ASCII the other case is
  \<open>FAILURE\<close>.  This is the state that a following \<open>STATE:\<close> line moves from: such a line
  records a transition from it to the new state when the two differ.
\<close>

theorem C10_explicit_transition:
  "search_transition U (strip U l) = Some (f, t, r) \<Longrightarrow>
     parse_lines U sts (ls @ [l]) =
       tfm_record_transition (parse_lines U sts ls) f t (upper U r = ''SUCCESS'')
   \<and> snd (parse_loop U (tfm_init sts, None) (ls @ [l])) =
       Some (if upper U r = ''SUCCESS'' then t else f)
   \<and> ((\<forall>ch \<in> set r. is_ascii ch) \<longrightarrow> upper U r = ''SUCCESS'' \<or> upper U r = ''FAILURE'')
   \<and> (\<forall>l2 n. search_transition U (strip U l2) = None \<and> search_state U (strip U l2) = Some n \<longrightarrow>
        parse_lines U sts (ls @ [l, l2]) =
          (let c = (if upper U r = ''SUCCESS'' then t else f);
               m1 = tfm_record_transition (parse_lines U sts ls) f t (upper U r = ''SUCCESS'')
           in if c \<noteq> [] \<and> c \<noteq> n
              then tfm_record_transition m1 c n (\<not> search_error U (strip U l2))
              else m1))"
proof -
  assume h: "search_transition U (strip U l) = Some (f, t, r)"
  define ok where "ok = (upper U r = ''SUCCESS'')"
  define m1 where "m1 = tfm_record_transition (parse_lines U sts ls) f t ok"
  define c where "c = (if ok then t else f)"
  have 1: "parse_loop U (tfm_init sts, None) (ls @ [l]) = (m1, Some c)"
    by (simp only: parse_loop_init_snoc transition_line_step [OF h] m1_def c_def ok_def)
  have 2: "parse_lines U sts (ls @ [l]) = m1"
    by (rule parse_lines_eq [OF 1])
  have 3: "(\<forall>ch \<in> set r. is_ascii ch) \<longrightarrow> upper U r = ''SUCCESS'' \<or> upper U r = ''FAILURE''"
    using search_transition_upper [OF h] by blast
  have 4: "parse_lines U sts (ls @ [l, l2]) =
          (if c \<noteq> [] \<and> c \<noteq> n
           then tfm_record_transition m1 c n (\<not> search_error U (strip U l2))
           else m1)"
    if a: "search_transition U (strip U l2) = None" and b: "search_state U (strip U l2) = Some n"
    for l2 n
  proof -
    have "parse_loop U (tfm_init sts, None) ((ls @ [l]) @ [l2]) = parse_line U (m1, Some c) l2"
      by (simp only: parse_loop_snoc [of U _ "ls @ [l]" l2] 1)
    also have "\<dots> = ((if c \<noteq> [] \<and> c \<noteq> n
           then tfm_record_transition m1 c n (\<not> search_error U (strip U l2))
           else m1), Some n)"
      by (simp add: state_line_step [OF a b])
    finally show ?thesis
      using parse_lines_eq [of U sts "(ls @ [l]) @ [l2]"] by simp
  qed
  have 5: "snd (parse_loop U (tfm_init sts, None) (ls @ [l])) = Some c"
    by (simp add: 1)
  show ?thesis
    using 2 3 4 5 unfolding m1_def c_def ok_def Let_def by blast
qed

text \<open>
  Claim C6, amended.  For every sequence of lines \<open>ls\<close> and every next line \<open>l\<close> that has no
  match of the explicit pattern and has a match \<open>STATE: <NAME>\<close>: the line makes \<open>NAME\<close>
  the parser's current state; \<open>parse_lines\<close> records a transition from the state last seen
  in \<open>ls\<close> to \<open>NAME\<close> only if there is such a state and it differs from \<open>NAME\<close>; that
  transition is a failure exactly when the line also matches one of the error keywords,
  and a success otherwise.  The state the loop holds after \<open>ls\<close> is the state last seen in
  \<open>ls\<close>; no line gives the fresh matrix; a line that is blank or matches neither pattern
  records nothing.
\<close>

theorem C6_state_line:
  "search_transition U (strip U l) = None \<Longrightarrow> search_state U (strip U l) = Some n \<Longrightarrow>
     parse_lines U sts (ls @ [l]) =
       (case last_seen U ls of
          Some c \<Rightarrow>
            if c \<noteq> [] \<and> c \<noteq> n
            then tfm_record_transition (parse_lines U sts ls) c n (\<not> search_error U (strip U l))
            else parse_lines U sts ls
        | None \<Rightarrow> parse_lines U sts ls)
   \<and> snd (parse_loop U (tfm_init sts, None) (ls @ [l])) = Some n
   \<and> snd (parse_loop U (tfm_init sts, None) ls) = last_seen U ls
   \<and> parse_lines U sts [] = tfm_init sts
   \<and> (\<forall>l'. strip U l' = []
             \<or> (search_transition U (strip U l') = None \<and> search_state U (strip U l') = None)
          \<longrightarrow> parse_lines U sts (ls @ [l']) = parse_lines U sts ls)"
proof -
  assume a: "search_transition U (strip U l) = None" and b: "search_state U (strip U l) = Some n"
  define X where "X = (case last_seen U ls of
          Some c \<Rightarrow>
            if c \<noteq> [] \<and> c \<noteq> n
            then tfm_record_transition (parse_lines U sts ls) c n (\<not> search_error U (strip U l))
            else parse_lines U sts ls
        | None \<Rightarrow> parse_lines U sts ls)"
  have 1: "parse_loop U (tfm_init sts, None) (ls @ [l]) = (X, Some n)"
    by (simp only: parse_loop_init_snoc state_line_step [OF a b] X_def)
  have 2: "parse_lines U sts (ls @ [l]) = X"
    by (rule parse_lines_eq [OF 1])
  have 3: "snd (parse_loop U (tfm_init sts, None) (ls @ [l])) = Some n"
    by (simp add: 1)
  have 4: "snd (parse_loop U (tfm_init sts, None) ls) = last_seen U ls"
    by (simp add: parse_loop_init)
  have 5: "parse_lines U sts [] = tfm_init sts"
    by (simp add: parse_lines_def)
  have 6: "parse_lines U sts (ls @ [l']) = parse_lines U sts ls"
    if c: "strip U l' = []
             \<or> (search_transition U (strip U l') = None \<and> search_state U (strip U l') = None)"
    for l'
  proof -
    have "parse_loop U (tfm_init sts, None) (ls @ [l']) = (parse_lines U sts ls, last_seen U ls)"
      by (simp only: parse_loop_init_snoc other_line_step [OF c])
    then show ?thesis by (rule parse_lines_eq)
  qed
  show ?thesis using 2 3 4 5 6 unfolding X_def by blast
qed

theorem C10_explicit_transition_witness:
  "search_transition ascii_table (strip ascii_table ''TRANSITION: A -> B FAILURE'')
     = Some (''A'', ''B'', lit ''FAILURE'')
   \<and> parse_lines ascii_table None [''STATE: X'', ''TRANSITION: A -> B FAILURE'']
     = tfm_record_transition (tfm_init None) ''A'' ''B'' False
   \<and> snd (parse_loop ascii_table (tfm_init None, None)
            [''STATE: X'', ''TRANSITION: A -> B FAILURE'']) = Some ''A''
   \<and> parse_lines ascii_table None [''STATE: X'', ''TRANSITION: A -> B FAILURE'', ''STATE: C'']
     = tfm_record_transition (tfm_record_transition (tfm_init None) ''A'' ''B'' False)
         ''A'' ''C'' True"
proof -
  have h: "search_transition ascii_table (strip ascii_table ''TRANSITION: A -> B FAILURE'')
     = Some (''A'', ''B'', lit ''FAILURE'')"
    by code_simp
  have u: "upper ascii_table (lit ''FAILURE'') \<noteq> ''SUCCESS''" by code_simp
  have b: "parse_lines ascii_table None [''STATE: X''] = tfm_init None"
    by code_simp
  have t2: "search_transition ascii_table (strip ascii_table ''STATE: C'') = None"
    by code_simp
  have s2: "search_state ascii_table (strip ascii_table ''STATE: C'') = Some ''C''"
    by code_simp
  have e2: "\<not> search_error ascii_table (strip ascii_table ''STATE: C'')"
    by code_simp
  from C10_explicit_transition [OF h, of None "[''STATE: X'']"]
  show ?thesis using h u b t2 s2 e2 by (simp add: Let_def)
qed

theorem C6_state_line_witness:
  "search_transition ascii_table (strip ascii_table ''STATE: B ERROR'') = None
   \<and> search_state ascii_table (strip ascii_table ''STATE: B ERROR'') = Some ''B''
   \<and> last_seen ascii_table [''STATE: A''] = Some ''A''
   \<and> parse_lines ascii_table None [''STATE: A'', ''STATE: B ERROR'']
       = tfm_record_transition (tfm_init None) ''A'' ''B'' False
   \<and> snd (parse_loop ascii_table (tfm_init None, None) [''STATE: A'', ''STATE: B ERROR''])
       = Some ''B''
   \<and> parse_lines ascii_table None [''STATE: A'', ''starting up''] = tfm_init None"
proof -
  have t: "search_transition ascii_table (strip ascii_table ''STATE: B ERROR'') = None"
    by code_simp
  have s: "search_state ascii_table (strip ascii_table ''STATE: B ERROR'') = Some ''B''"
    by code_simp
  have e: "search_error ascii_table (strip ascii_table ''STATE: B ERROR'')" by code_simp
  have l: "last_seen ascii_table [''STATE: A''] = Some ''A''" by code_simp
  have b: "parse_lines ascii_table None [''STATE: A''] = tfm_init None" by code_simp
  have o: "search_transition ascii_table (strip ascii_table ''starting up'') = None"
    "search_state ascii_table (strip ascii_table ''starting up'') = None"
    by code_simp+
  from C6_state_line [OF t s, of None "[''STATE: A'']"]
  show ?thesis using t s e l b o by simp
qed

text \<open>
  Claim C6, as stated, has every \<open>STATE:\<close> line recorded as a transition.  A line that
  names the state the parser is already in records nothing, even with an error keyword.
\<close>

theorem C6_counterexample:
  "search_state ascii_table (strip ascii_table ''STATE: A ERROR'') = Some ''A''
   \<and> search_error ascii_table (strip ascii_table ''STATE: A ERROR'')
   \<and> total_transitions (parse_lines ascii_table None [''STATE: A'', ''STATE: A ERROR'']) = 0
   \<and> tfm_matrix (parse_lines ascii_table None [''STATE: A'', ''STATE: A ERROR'']) = []"
  by code_simp

section \<open>Renderers\<close>

lemma fr_percent:
  "failure_rate_percent m =
     Inr (if total_transitions m > 0
          then PyFloat (of_int (total_failures m) / of_int (total_transitions m) * 100)
          else PyInt 0)"
  by (simp add: failure_rate_percent_def truediv_def)

lemma fr_fraction:
  "failure_rate_fraction m =
     Inr (if total_transitions m > 0
          then PyFloat (of_int (total_failures m) / of_int (total_transitions m))
          else PyInt 0)"
  by (simp add: failure_rate_fraction_def truediv_def)

lemma render_ascii_total: "\<exists>r. tfm_render_ascii m = Inr r"
  by (cases "get_all_states m")
     (simp_all add: tfm_render_ascii_def Let_def py_max_def split: prod.splits)

lemma md_rows_prefix: "\<exists>rows. fst (md_rows mx sts fs lines) = lines @ rows"
proof (induction fs arbitrary: mx lines)
  case Nil
  show ?case by simp
next
  case (Cons f fs)
  define C where "C = md_cells mx f sts (''| **'' @ f @ ''** |'')"
  have step: "md_rows mx sts (f # fs) lines = md_rows (snd C) sts fs (lines @ [fst C])"
    by (simp add: C_def case_prod_unfold)
  from Cons.IH [of "snd C" "lines @ [fst C]"]
  obtain rows where "fst (md_rows (snd C) sts fs (lines @ [fst C])) = (lines @ [fst C]) @ rows"
    by blast
  then have "fst (md_rows mx sts (f # fs) lines) = lines @ (fst C # rows)"
    unfolding step by simp
  then show ?case by blast
qed

lemma render_markdown_rate:
  "if get_all_states m = []
   then tfm_render_markdown fmt m =
          Inr (''# Transition Failure Matrix'' @ NL @ NL @ ''No transitions found.'', m)
   else (\<exists>rest m'. tfm_render_markdown fmt m =
          Inr (join NL
                ([''# Transition Failure Matrix'' @ NL,
                  ''**Total Transitions:** '' @ str_int (total_transitions m),
                  ''**Total Failures:** '' @ str_int (total_failures m),
                  ''**Failure Rate:** '' @
                    fmt (if total_transitions m > 0
                         then PyFloat (of_int (total_failures m) / of_int (total_transitions m)
                                        * 100)
                         else PyInt 0) @ ''%'' @ NL]
                 @ rest), m'))"
proof (cases "get_all_states m = []")
  case True
  then show ?thesis by (simp add: tfm_render_markdown_def)
next
  case False
  define rate where "rate = (if total_transitions m > 0
                         then PyFloat (of_int (total_failures m) / of_int (total_transitions m)
                                        * 100)
                         else PyInt 0)"
  define sts where "sts = get_all_states m"
  define L where "L = [''# Transition Failure Matrix'' @ NL,
                  ''**Total Transitions:** '' @ str_int (total_transitions m),
                  ''**Total Failures:** '' @ str_int (total_failures m),
                  ''**Failure Rate:** '' @ fmt rate @ ''%'' @ NL]"
  define R where "R = md_rows (tfm_matrix m) sts sts (L @ [md_header sts, md_separator sts])"
  obtain rows where rows: "fst R = (L @ [md_header sts, md_separator sts]) @ rows"
    unfolding R_def using md_rows_prefix by blast
  define extra where "extra =
     (if tfm_get_hotspots (m\<lparr>tfm_matrix := snd R\<rparr>) 2 \<noteq> []
      then [NL @ ''## Hotspots (failures >= 2)'' @ NL]
             @ map md_hotspot_line (take 10 (tfm_get_hotspots (m\<lparr>tfm_matrix := snd R\<rparr>) 2))
      else [])"
  have "tfm_render_markdown fmt m =
          Inr (join NL (fst R @ extra), m\<lparr>tfm_matrix := snd R\<rparr>)"
    using False
    unfolding tfm_render_markdown_def R_def L_def extra_def sts_def rate_def
    by (simp del: md_rows.simps add: fr_percent Let_def case_prod_unfold)
  then have "tfm_render_markdown fmt m =
          Inr (join NL (L @ ([md_header sts, md_separator sts] @ rows @ extra)),
               m\<lparr>tfm_matrix := snd R\<rparr>)"
    by (simp add: rows)
  then show ?thesis using False unfolding L_def rate_def by (simp only: if_False) blast
qed

lemma render_json_rate:
  "tfm_render_json m k =
     Inr (JObj
       [(''states'', JArr (map JStr (get_all_states m))),
        (''matrix'',
           JObj (map (\<lambda>(f, r). (f, JObj (map (\<lambda>(t, c). (t, JNum (PyInt c))) r))) (tfm_matrix m))),
        (''hotspots'',
           JArr (map (\<lambda>(f, t, c).
                        JObj [(''from'', JStr f), (''to'', JStr t), (''count'', JNum (PyInt c))])
                   (tfm_get_hotspots m k))),
        (''total_transitions'', JNum (PyInt (total_transitions m))),
        (''total_failures'', JNum (PyInt (total_failures m))),
        (''failure_rate'',
           JNum (if total_transitions m > 0
                 then PyFloat (of_int (total_failures m) / of_int (total_transitions m))
                 else PyInt 0))])"
  by (simp add: tfm_render_json_def fr_fraction)

lemma pair_stats_eq: "pair_stats es = Inr (stats_of es)"
  by (cases es) (simp_all add: pair_stats_def stats_of_def truediv_def float_div_def Let_def)

lemma collect_Inr: "collect (map (\<lambda>x. Inr (g x)) xs) = Inr (map g xs)"
  by (induction xs) simp_all

lemma get_transition_rates_eq:
  "get_transition_rates tr =
     Inr (map (\<lambda>p. (pair_label (fst p) (snd p), stats_of (pair_events tr p))) (event_pairs tr))"
  by (simp add: get_transition_rates_def pair_stats_eq collect_Inr)

text \<open>
  Claim C9.  With exact arithmetic in place of \<open>float\<close>: the failure rate that
  \<open>render_markdown\<close> computes and prints is \<open>failures / total * 100\<close> when \<open>total > 0\<close> and
  \<open>0\<close> otherwise, and the one that \<open>render_json\<close> computes and emits is \<open>failures / total\<close>
  when \<open>total > 0\<close> and \<open>0\<close> otherwise; neither raises \<open>ZeroDivisionError\<close>, and none of the
  three renderers of the matrix raises, whatever the state of the matrix.  The ledger's
  rates per pair, modelled from the specification, are \<open>failures / total * 100\<close> for every
  pair of the mapping and \<open>0\<close> for a group without events, with the average duration
  guarded the same way, and computing them never raises, whatever the events.
\<close>

theorem C9_failure_rate:
  "failure_rate_percent m =
     Inr (if total_transitions m > 0
          then PyFloat (of_int (total_failures m) / of_int (total_transitions m) * 100)
          else PyInt 0)
   \<and> failure_rate_fraction m =
     Inr (if total_transitions m > 0
          then PyFloat (of_int (total_failures m) / of_int (total_transitions m))
          else PyInt 0)
   \<and> (if get_all_states m = []
       then tfm_render_markdown fmt m =
              Inr (''# Transition Failure Matrix'' @ NL @ NL @ ''No transitions found.'', m)
       else (\<exists>rest m'. tfm_render_markdown fmt m =
              Inr (join NL
                    ([''# Transition Failure Matrix'' @ NL,
                      ''**Total Transitions:** '' @ str_int (total_transitions m),
                      ''**Total Failures:** '' @ str_int (total_failures m),
                      ''**Failure Rate:** '' @
                        fmt (if total_transitions m > 0
                             then PyFloat (of_int (total_failures m)
                                            / of_int (total_transitions m) * 100)
                             else PyInt 0) @ ''%'' @ NL]
                     @ rest), m')))
   \<and> tfm_render_json m k =
     Inr (JObj
       [(''states'', JArr (map JStr (get_all_states m))),
        (''matrix'',
           JObj (map (\<lambda>(f, r). (f, JObj (map (\<lambda>(t, c). (t, JNum (PyInt c))) r))) (tfm_matrix m))),
        (''hotspots'',
           JArr (map (\<lambda>(f, t, c).
                        JObj [(''from'', JStr f), (''to'', JStr t), (''count'', JNum (PyInt c))])
                   (tfm_get_hotspots m k))),
        (''total_transitions'', JNum (PyInt (total_transitions m))),
        (''total_failures'', JNum (PyInt (total_failures m))),
        (''failure_rate'',
           JNum (if total_transitions m > 0
                 then PyFloat (of_int (total_failures m) / of_int (total_transitions m))
                 else PyInt 0))])
   \<and> (\<exists>r. tfm_render_ascii m = Inr r)
   \<and> pair_stats es = Inr (stats_of es)
   \<and> get_transition_rates tr =
     Inr (map (\<lambda>p. (pair_label (fst p) (snd p), stats_of (pair_events tr p))) (event_pairs tr))"
  by (intro conjI)
     (rule fr_percent fr_fraction render_markdown_rate render_json_rate render_ascii_total
        pair_stats_eq get_transition_rates_eq)+

subsection \<open>Tables of a matrix without failures\<close>

lemma set_dict_set: "set (dict_set k v l) \<subseteq> insert (k, v) (set l)"
  by (induction l) (auto split: if_splits)

lemma dd_row_cases: "dd_row mx f = [] \<or> (f, dd_row mx f) \<in> set mx"
  by (auto simp: dd_row_def split: option.splits dest: map_of_SomeD)

lemma dd_count_zero: "\<forall>t c. (t, c) \<in> set r \<longrightarrow> c = 0 \<Longrightarrow> dd_count r t = 0"
  by (auto simp: dd_count_def split: option.splits dest: map_of_SomeD)

lemma all_zero_row: "all_zero mx \<Longrightarrow> (t, c) \<in> set (dd_row mx f) \<Longrightarrow> c = 0"
  using dd_row_cases [of mx f] by (auto simp: all_zero_def)

lemma matrix_read_zero:
  assumes "all_zero mx"
  shows "fst (matrix_read mx f t) = 0" and "all_zero (snd (matrix_read mx f t))"
proof -
  have z: "dd_count (dd_row mx f) t = 0"
    using assms by (auto intro!: dd_count_zero dest: all_zero_row)
  then show "fst (matrix_read mx f t) = 0" by (simp add: matrix_read_def Let_def)
  have r: "\<And>t' c. (t', c) \<in> set (dict_set t 0 (dd_row mx f)) \<Longrightarrow> c = 0"
    using set_dict_set [of t 0 "dd_row mx f"] assms by (auto dest: all_zero_row)
  show "all_zero (snd (matrix_read mx f t))"
    unfolding all_zero_def
  proof (intro allI impI)
    fix f' r' t' c
    assume a: "(f', r') \<in> set (snd (matrix_read mx f t))" and b: "(t', c) \<in> set r'"
    from a have "(f', r') = (f, dict_set t 0 (dd_row mx f)) \<or> (f', r') \<in> set mx"
      using set_dict_set [of f "dict_set t 0 (dd_row mx f)" mx] z
      by (auto simp: matrix_read_def Let_def)
    then show "c = 0"
      using b r assms by (auto simp: all_zero_def)
  qed
qed

lemma md_cells_zero:
  "all_zero mx \<Longrightarrow>
     fst (md_cells mx f ts row) = row @ concat (map (\<lambda>t. '' - |'') ts)
     \<and> all_zero (snd (md_cells mx f ts row))"
proof (induction ts arbitrary: mx row)
  case Nil
  then show ?case by simp
next
  case (Cons t ts)
  obtain c mx' where r: "matrix_read mx f t = (c, mx')" by (cases "matrix_read mx f t")
  from matrix_read_zero [OF Cons.prems, of f t] r have c: "c = 0" and z: "all_zero mx'"
    by simp_all
  show ?case using Cons.IH [OF z] by (simp add: r c)
qed

lemma md_rows_zero:
  "all_zero mx \<Longrightarrow>
     fst (md_rows mx sts fs lines) = lines @ map (md_empty_row sts) fs
     \<and> all_zero (snd (md_rows mx sts fs lines))"
proof (induction fs arbitrary: mx lines)
  case Nil
  then show ?case by simp
next
  case (Cons f fs)
  define C where "C = md_cells mx f sts (''| **'' @ f @ ''** |'')"
  have step: "md_rows mx sts (f # fs) lines = md_rows (snd C) sts fs (lines @ [fst C])"
    by (simp add: C_def case_prod_unfold)
  from md_cells_zero [OF Cons.prems, of f sts "''| **'' @ f @ ''** |''"]
  have row: "fst C = md_empty_row sts f" and z: "all_zero (snd C)"
    by (simp_all add: C_def md_empty_row_def)
  show ?case unfolding step using Cons.IH [OF z, of "lines @ [fst C]"] by (simp add: row)
qed

lemma hotspots_zero: "all_zero mx \<Longrightarrow> k > 0 \<Longrightarrow> get_hotspots mx k = []"
proof -
  assume z: "all_zero mx" and k: "k > 0"
  have "\<And>x. x \<in> set (matrix_items mx) \<Longrightarrow> hs_count x = 0"
    using z by (auto simp: matrix_items_def all_zero_def hs_count_def)
  then have "filter (\<lambda>x. hs_count x \<ge> k) (matrix_items mx) = []"
    using k by (auto simp: filter_empty_conv)
  then show ?thesis by (simp add: get_hotspots_eq)
qed

lemma ascii_cells_zero:
  "all_zero mx \<Longrightarrow>
     fst (ascii_cells w mx f ts row) = row @ concat (map (\<lambda>t. center w middle_dot @ '' '') ts)
     \<and> all_zero (snd (ascii_cells w mx f ts row))"
proof (induction ts arbitrary: mx row)
  case Nil
  then show ?case by simp
next
  case (Cons t ts)
  obtain c mx' where r: "matrix_read mx f t = (c, mx')" by (cases "matrix_read mx f t")
  from matrix_read_zero [OF Cons.prems, of f t] r have c: "c = 0" and z: "all_zero mx'"
    by simp_all
  show ?case using Cons.IH [OF z] by (simp add: r c)
qed

lemma ascii_rows_zero:
  "all_zero mx \<Longrightarrow>
     fst (ascii_rows w mx sts fs lines) = lines @ map (ascii_empty_row w sts) fs
     \<and> all_zero (snd (ascii_rows w mx sts fs lines))"
proof (induction fs arbitrary: mx lines)
  case Nil
  then show ?case by simp
next
  case (Cons f fs)
  define C where "C = ascii_cells w mx f sts (rjust w f @ '' |'')"
  have step: "ascii_rows w mx sts (f # fs) lines = ascii_rows w (snd C) sts fs (lines @ [fst C])"
    by (simp add: C_def case_prod_unfold)
  from ascii_cells_zero [OF Cons.prems, of w f sts "rjust w f @ '' |''"]
  have row: "fst C = ascii_empty_row w sts f" and z: "all_zero (snd C)"
    by (simp_all add: C_def ascii_empty_row_def)
  show ?case unfolding step using Cons.IH [OF z, of "lines @ [fst C]"] by (simp add: row)
qed

lemma all_zero_Nil: "all_zero []"
  by (simp add: all_zero_def)

lemma str_int_0: "str_int 0 = ''0''"
  by code_simp

lemma md_fixed_states:
  "map_sum id fst (tfm_render_markdown fmt (tfm_init (Some (s # ss)))) =
     Inr (join NL
       ([''# Transition Failure Matrix'' @ NL,
         ''**Total Transitions:** 0'',
         ''**Total Failures:** 0'',
         ''**Failure Rate:** '' @ fmt (PyInt 0) @ ''%'' @ NL,
         md_header (s # ss), md_separator (s # ss)]
        @ map (md_empty_row (s # ss)) (s # ss)))"
proof -
  let ?L = "[''# Transition Failure Matrix'' @ NL,
         ''**Total Transitions:** 0'',
         ''**Total Failures:** 0'',
         ''**Failure Rate:** '' @ fmt (PyInt 0) @ ''%'' @ NL,
         md_header (s # ss), md_separator (s # ss)]"
  let ?R = "md_rows [] (s # ss) (s # ss) ?L"
  have 1: "fst ?R = ?L @ map (md_empty_row (s # ss)) (s # ss)" and 2: "all_zero (snd ?R)"
    using md_rows_zero [OF all_zero_Nil, of "s # ss" "s # ss" ?L] by blast+
  have 3: "get_hotspots (snd ?R) 2 = []"
    by (rule hotspots_zero [OF 2]) simp
  show ?thesis
    unfolding tfm_render_markdown_def
    using 1 3
    by (simp del: md_rows.simps
        add: get_all_states_def tfm_init_def fr_percent str_int_0 Let_def
        case_prod_unfold tfm_get_hotspots_def)
qed

lemma ascii_fixed_states:
  "map_sum id fst (tfm_render_ascii (tfm_init (Some (s # ss)))) =
     Inr (join NL
       ([''Total Transitions: 0'',
         ''Total Failures: 0'',
         [],
         ascii_header (ascii_col_width (s # ss)) (s # ss),
         replicate (py_len (ascii_header (ascii_col_width (s # ss)) (s # ss))) (CHR ''-'')]
        @ map (ascii_empty_row (ascii_col_width (s # ss)) (s # ss)) (s # ss)))"
proof -
  let ?w = "ascii_col_width (s # ss)"
  let ?L = "[''Total Transitions: 0'',
         ''Total Failures: 0'',
         [],
         ascii_header ?w (s # ss),
         replicate (py_len (ascii_header ?w (s # ss))) (CHR ''-'')]"
  let ?R = "ascii_rows ?w [] (s # ss) (s # ss) ?L"
  have w: "max (fold max (map py_len ss) (py_len s)) 4 = ?w"
    by (simp add: ascii_col_width_def Max.set_eq_fold [symmetric])
  have 1: "fst ?R = ?L @ map (ascii_empty_row ?w (s # ss)) (s # ss)" and 2: "all_zero (snd ?R)"
    using ascii_rows_zero [OF all_zero_Nil, of ?w "s # ss" "s # ss" ?L] by blast+
  have 3: "get_hotspots (snd ?R) 2 = []"
    by (rule hotspots_zero [OF 2]) simp
  show ?thesis
    unfolding tfm_render_ascii_def
    using 1 3
    by (simp del: ascii_rows.simps
        add: get_all_states_def tfm_init_def py_max_def str_int_0 Let_def w
        case_prod_unfold tfm_get_hotspots_def)
qed

lemma no_states:
  "tfm_render_markdown fmt (tfm_init None) =
     Inr (''# Transition Failure Matrix'' @ NL @ NL @ ''No transitions found.'', tfm_init None)"
  "tfm_render_ascii (tfm_init None) = Inr (''No transitions found.'', tfm_init None)"
  "tracker_render_markdown tracker_init =
     (''# Transition Failure Matrix'' @ NL @ NL @ ''No transitions recorded.'', tracker_init)"
  "render_sankey [] incl k =
     fence @ ''mermaid'' @ NL @ ''sankey-beta'' @ NL @ NL @ ''No transitions recorded'' @ NL @ fence"
  by (simp_all add: tfm_render_markdown_def tfm_render_ascii_def tracker_render_markdown_def
      render_sankey_def get_all_states_def tfm_init_def summary_states_def tracker_init_def)

lemma json_empty:
  "tfm_render_json (tfm_init sts) k =
     Inr (JObj
       [(''states'', JArr (map JStr (case sts of None \<Rightarrow> [] | Some l \<Rightarrow> l))),
        (''matrix'', JObj []),
        (''hotspots'', JArr []),
        (''total_transitions'', JNum (PyInt 0)),
        (''total_failures'', JNum (PyInt 0)),
        (''failure_rate'', JNum (PyInt 0))])"
  by (simp add: tfm_render_json_def fr_fraction tfm_init_def get_all_states_def
      tfm_get_hotspots_def get_hotspots_def)

text \<open>
  Claim C8, as stated, has every renderer return its placeholder when nothing was
  recorded, also for a matrix built with a fixed state list.  The renderers test the list
  of states, not the number of transitions: with the fixed list \<open>["A"]\<close> and no transition,
  \<open>render_ascii\<close> returns a grid of one row and one column.
\<close>

theorem C8_counterexample:
  "map_sum id fst (tfm_render_ascii (tfm_init (Some [''A'']))) =
     Inr (''Total Transitions: 0'' @ NL @
          ''Total Failures: 0'' @ NL @
          NL @
          ''        A   '' @ NL @
          ''------------'' @ NL @
          ''   A | '' @ middle_dot @ ''   '')"
  by code_simp

text \<open>
  Claim C8, amended.  With nothing recorded and no fixed state list, the Markdown and ASCII
  renderers of the matrix and the Markdown renderer of the tracker return their placeholder
  and leave the object unchanged, and the flow diagram of an empty rate mapping is its
  placeholder.  The JSON renderer has no placeholder: for a fresh matrix it returns the
  object with the configured states, an empty matrix, no hotspots and zeros.  With a fixed,
  non-empty state list the Markdown and ASCII renderers return the full table: the totals,
  the header, and one row per state whose cells are all the empty mark.  No renderer raises.
\<close>

theorem C8_no_data:
  "tfm_render_markdown fmt (tfm_init None) =
     Inr (''# Transition Failure Matrix'' @ NL @ NL @ ''No transitions found.'', tfm_init None)
   \<and> tfm_render_ascii (tfm_init None) = Inr (''No transitions found.'', tfm_init None)
   \<and> tracker_render_markdown tracker_init =
     (''# Transition Failure Matrix'' @ NL @ NL @ ''No transitions recorded.'', tracker_init)
   \<and> render_sankey [] incl k =
     fence @ ''mermaid'' @ NL @ ''sankey-beta'' @ NL @ NL @ ''No transitions recorded'' @ NL @ fence
   \<and> tfm_render_json (tfm_init sts) k =
     Inr (JObj
       [(''states'', JArr (map JStr (case sts of None \<Rightarrow> [] | Some l \<Rightarrow> l))),
        (''matrix'', JObj []),
        (''hotspots'', JArr []),
        (''total_transitions'', JNum (PyInt 0)),
        (''total_failures'', JNum (PyInt 0)),
        (''failure_rate'', JNum (PyInt 0))])
   \<and> map_sum id fst (tfm_render_markdown fmt (tfm_init (Some (s # ss)))) =
     Inr (join NL
       ([''# Transition Failure Matrix'' @ NL,
         ''**Total Transitions:** 0'',
         ''**Total Failures:** 0'',
         ''**Failure Rate:** '' @ fmt (PyInt 0) @ ''%'' @ NL,
         md_header (s # ss), md_separator (s # ss)]
        @ map (md_empty_row (s # ss)) (s # ss)))
   \<and> map_sum id fst (tfm_render_ascii (tfm_init (Some (s # ss)))) =
     Inr (join NL
       ([''Total Transitions: 0'',
         ''Total Failures: 0'',
         [],
         ascii_header (ascii_col_width (s # ss)) (s # ss),
         replicate (py_len (ascii_header (ascii_col_width (s # ss)) (s # ss))) (CHR ''-'')]
        @ map (ascii_empty_row (ascii_col_width (s # ss)) (s # ss)) (s # ss)))"
  by (intro conjI) (rule no_states json_empty md_fixed_states ascii_fixed_states)+

section \<open>Baseline comparison\<close>

lemma regression_of_iff:
  "(\<exists>r \<in> set (regression_of eps base th pair c). reg_transition r = p) =
     (pair = p \<and> (\<exists>b. map_of base p = Some b
        \<and> rs_failure_rate c - rs_failure_rate b > 0
        \<and> (rs_failure_rate c - rs_failure_rate b) / max (rs_failure_rate b) eps > th))"
proof (cases "map_of base pair")
  case None
  then show ?thesis by (auto simp: regression_of_def)
next
  case (Some b)
  then show ?thesis by (auto simp: regression_of_def Let_def)
qed

lemma compare_reported:
  "(\<exists>r \<in> set (compare_to_baseline eps cur base th). reg_transition r = p) =
     (\<exists>c b. (p, c) \<in> set cur \<and> map_of base p = Some b
        \<and> rs_failure_rate c - rs_failure_rate b > 0
        \<and> (rs_failure_rate c - rs_failure_rate b) / max (rs_failure_rate b) eps > th)"
proof -
  have "(\<exists>r \<in> set (compare_to_baseline eps cur base th). reg_transition r = p) =
        (\<exists>(pair, c) \<in> set cur. \<exists>r \<in> set (regression_of eps base th pair c). reg_transition r = p)"
    by (auto simp: compare_to_baseline_def)
  also have "\<dots> = (\<exists>(pair, c) \<in> set cur. pair = p \<and> (\<exists>b. map_of base p = Some b
        \<and> rs_failure_rate c - rs_failure_rate b > 0
        \<and> (rs_failure_rate c - rs_failure_rate b) / max (rs_failure_rate b) eps > th))"
    by (simp only: regression_of_iff)
  also have "\<dots> = (\<exists>c b. (p, c) \<in> set cur \<and> map_of base p = Some b
        \<and> rs_failure_rate c - rs_failure_rate b > 0
        \<and> (rs_failure_rate c - rs_failure_rate b) / max (rs_failure_rate b) eps > th)"
    by auto
  finally show ?thesis .
qed

lemma scenario_flagged:
  assumes "0 < eps" "eps \<le> 10"
  shows "compare_to_baseline eps [(q, x\<lparr>rs_failure_rate := 15\<rparr>)]
            [(q, y\<lparr>rs_failure_rate := 10\<rparr>)] (2 / 10)
         = [\<lparr>reg_transition = q, reg_baseline_rate = 10, reg_current_rate = 15,
             reg_delta = 5, reg_percent_increase = 50\<rparr>]"
proof -
  have m: "max 10 eps = 10" using assms by simp
  show ?thesis by (simp add: compare_to_baseline_def regression_of_def Let_def m)
qed

lemma scenario_not_flagged:
  assumes "0 < eps" "eps \<le> 10"
  shows "compare_to_baseline eps [(q, x\<lparr>rs_failure_rate := 11\<rparr>)]
            [(q, y\<lparr>rs_failure_rate := 10\<rparr>)] (2 / 10) = []"
proof -
  have m: "max 10 eps = 10" using assms by simp
  show ?thesis by (simp add: compare_to_baseline_def regression_of_def Let_def m)
qed

text \<open>
  Claim C4.  For a positive \<open>epsilon\<close> (at most 10, for the scenario): a regression is
  reported for a pair exactly when the pair is in both mappings, \<open>delta > 0\<close> and
  \<open>delta / max(baseline rate, epsilon) > threshold\<close>, so a pair on one side only is never
  reported; with baseline rate 10.0 and threshold 0.2, a current rate of 15.0 is reported
  with \<open>delta = 5\<close>, and a current rate of 11.0 is not.
\<close>

theorem C4_compare_to_baseline:
  "0 < eps \<Longrightarrow> eps \<le> 10 \<Longrightarrow>
     ((\<exists>r \<in> set (compare_to_baseline eps cur base th). reg_transition r = p) =
        (\<exists>c b. (p, c) \<in> set cur \<and> map_of base p = Some b
           \<and> rs_failure_rate c - rs_failure_rate b > 0
           \<and> (rs_failure_rate c - rs_failure_rate b) / max (rs_failure_rate b) eps > th))
   \<and> compare_to_baseline eps [(q, x\<lparr>rs_failure_rate := 15\<rparr>)]
        [(q, y\<lparr>rs_failure_rate := 10\<rparr>)] (2 / 10)
      = [\<lparr>reg_transition = q, reg_baseline_rate = 10, reg_current_rate = 15,
          reg_delta = 5, reg_percent_increase = 50\<rparr>]
   \<and> compare_to_baseline eps [(q, x\<lparr>rs_failure_rate := 11\<rparr>)]
        [(q, y\<lparr>rs_failure_rate := 10\<rparr>)] (2 / 10) = []"
  by (intro conjI compare_reported scenario_flagged scenario_not_flagged)

theorem C4_compare_to_baseline_witness:
  "(0::rat) < 1 / 1000 \<and> (1::rat) / 1000 \<le> 10
   \<and> compare_to_baseline (1 / 1000) [(''A'' @ arrow_sep @ ''B'', stats0\<lparr>rs_failure_rate := 15\<rparr>)]
        [(''A'' @ arrow_sep @ ''B'', stats0\<lparr>rs_failure_rate := 10\<rparr>)] (2 / 10)
      = [\<lparr>reg_transition = ''A'' @ arrow_sep @ ''B'', reg_baseline_rate = 10, reg_current_rate = 15,
          reg_delta = 5, reg_percent_increase = 50\<rparr>]
   \<and> compare_to_baseline (1 / 1000) [(''A'' @ arrow_sep @ ''B'', stats0\<lparr>rs_failure_rate := 11\<rparr>)]
        [(''A'' @ arrow_sep @ ''B'', stats0\<lparr>rs_failure_rate := 10\<rparr>)] (2 / 10) = []"
proof -
  have a: "(0::rat) < 1 / 1000" and b: "(1::rat) / 1000 \<le> 10" by simp_all
  from C4_compare_to_baseline [OF a b, of "[]" "[]" 0 "''x''" "''A'' @ arrow_sep @ ''B''" stats0 stats0]
  show ?thesis using a b by blast
qed

end
